theory Spec2Isabelle
  imports Main
begin

section \<open>Data model (docker.go, lines 13-64)\<close>

text \<open>
  The plugin exists in two versions in the repository: \<^verbatim>\<open>src/docker.go\<close> and a second Go
  file of the same package that follows the shell script in \<^verbatim>\<open>src/debug.sh\<close>. The three
  structs are the same in both (the second file calls the \<^verbatim>\<open>Dryrun\<close> field
  \<^verbatim>\<open>SkipPush\<close>). Definitions taken from the second file carry the suffix \<open>_v\<close>;
  functions that are textually the same in both files are modelled once.

  Go strings are byte sequences, as \<^typ>\<open>string\<close> is. An \<^verbatim>\<open>*exec.Cmd\<close> is modelled by its
  \<^verbatim>\<open>Args\<close> field, the argument vector with the executable name at index 0, which is what
  \<^verbatim>\<open>exec.Command(name, args...)\<close> stores.
\<close>

definition buildahExe :: string where
  "buildahExe = ''buildah''"

record Login =
  Registry :: string
  Username :: string
  Password :: string
  Email :: string
  Config :: string

record Build =
  Remote :: string
  Name :: string
  Dockerfile :: string
  Context :: string
  Tags :: "string list"
  Args :: "string list"
  ArgsEnv :: "string list"
  Target :: string
  Squash :: bool
  Pull :: bool
  CacheFrom :: "string list"
  Compress :: bool
  Repo :: string
  LabelSchema :: "string list"
  AutoLabel :: bool
  Labels :: "string list"
  Link :: string
  NoCache :: bool
  AddHost :: "string list"
  Quiet :: bool
  S3CacheDir :: string
  S3Bucket :: string
  S3Endpoint :: string
  S3Region :: string
  S3Key :: string
  S3Secret :: string
  S3UseSSL :: bool
  Layers :: bool

record Plugin =
  Login :: Login
  Build :: Build
  Dryrun :: bool
  Cleanup :: bool

type_synonym Cmd = "string list"

type_synonym Environ = "string \<rightharpoonup> string"

section \<open>Library functions of Go used by the plugin\<close>

text \<open>\<^verbatim>\<open>os.Getenv\<close> returns the empty string for a variable that is not set.\<close>

definition Getenv :: "Environ \<Rightarrow> string \<Rightarrow> string" where
  "Getenv env k = (case env k of None \<Rightarrow> [] | Some v \<Rightarrow> v)"

definition Setenv :: "string \<Rightarrow> string \<Rightarrow> Environ \<Rightarrow> Environ" where
  "Setenv k v env = env(k \<mapsto> v)"

text \<open>
  \<^verbatim>\<open>strings.ToUpper\<close> looks at the bytes of its argument first. When every byte is below
  \<^verbatim>\<open>utf8.RuneSelf\<close> (128) it maps the bytes \<^verbatim>\<open>a\<close>..\<^verbatim>\<open>z\<close> to \<^verbatim>\<open>A\<close>..\<^verbatim>\<open>Z\<close> and keeps every
  other byte. Otherwise it returns \<^verbatim>\<open>strings.Map(unicode.ToUpper, s)\<close>, which decodes the
  string as UTF-8 and maps each code point through the Unicode tables of the Go
  library. Those tables are not part of the repository: that mapping is the parameter
  \<open>up\<close> of type \<open>Upper\<close>, which every function that upper-cases a name carries.
\<close>

type_synonym Upper = "string \<Rightarrow> string"

definition isASCII :: "string \<Rightarrow> bool" where
  "isASCII s = list_all (\<lambda>c. (of_char c :: nat) < 128) s"

definition toUpperByte :: "char \<Rightarrow> char" where
  "toUpperByte c =
     (let n = (of_char c :: nat) in if 97 \<le> n \<and> n \<le> 122 then char_of (n - 32) else c)"

definition ToUpper :: "Upper \<Rightarrow> string \<Rightarrow> string" where
  "ToUpper up s = (if isASCII s then map toUpperByte s else up s)"

text \<open>\<^verbatim>\<open>strings.HasPrefix(s, prefix)\<close> is \<^verbatim>\<open>len(s) >= len(prefix) && s[:len(prefix)] == prefix\<close>.\<close>

definition HasPrefix :: "string \<Rightarrow> string \<Rightarrow> bool" where
  "HasPrefix s pre = (length pre \<le> length s \<and> take (length pre) s = pre)"

text \<open>\<^verbatim>\<open>strings.Join(elems, sep)\<close>.\<close>

fun Join :: "string list \<Rightarrow> string \<Rightarrow> string" where
  "Join [] sep = []"
| "Join [x] sep = x"
| "Join (x # y # ys) sep = x @ sep @ Join (y # ys) sep"

section \<open>Proxy build arguments (docker.go, lines 285-320; the same in both files)\<close>

text \<open>\<^verbatim>\<open>getProxyValue\<close>: the variable as named first, its upper-case form otherwise.\<close>

definition getProxyValue :: "Upper \<Rightarrow> Environ \<Rightarrow> string \<Rightarrow> string" where
  "getProxyValue up env key =
     (let v = Getenv env key in
      if length v > 0 then v else Getenv env (ToUpper up key))"

text \<open>\<^verbatim>\<open>hasProxyBuildArg\<close>: the loop returns at the first argument that starts with the key
  or with its upper-case form.\<close>

fun hasProxyLoop :: "string \<Rightarrow> string \<Rightarrow> string list \<Rightarrow> bool" where
  "hasProxyLoop key keyUpper [] = False"
| "hasProxyLoop key keyUpper (s # ss) =
     (if HasPrefix s key \<or> HasPrefix s keyUpper then True
      else hasProxyLoop key keyUpper ss)"

definition hasProxyBuildArg :: "Upper \<Rightarrow> Build \<Rightarrow> string \<Rightarrow> bool" where
  "hasProxyBuildArg up build key = (let keyUpper = ToUpper up key in hasProxyLoop key keyUpper (Args build))"

text \<open>\<^verbatim>\<open>addProxyValue\<close> updates the build through a pointer; the model returns the updated
  record. The two appends are kept as two updates.\<close>

definition addProxyValue :: "Upper \<Rightarrow> Environ \<Rightarrow> Build \<Rightarrow> string \<Rightarrow> Build" where
  "addProxyValue up env build key =
     (let v = getProxyValue up env key in
      if length v > 0 \<and> \<not> hasProxyBuildArg up build key then
        (let b1 = build\<lparr>Args := Args build @ [key @ ''='' @ v]\<rparr>
         in b1\<lparr>Args := Args b1 @ [ToUpper up key @ ''='' @ v]\<rparr>)
      else build)"

definition addProxyBuildArgs :: "Upper \<Rightarrow> Environ \<Rightarrow> Build \<Rightarrow> Build" where
  "addProxyBuildArgs up env build =
     (let b1 = addProxyValue up env build ''http_proxy'';
          b2 = addProxyValue up env b1 ''https_proxy''
      in addProxyValue up env b2 ''no_proxy'')"

section \<open>Command constructors of docker.go (lines 173-192, 322-337)\<close>

definition commandLogin :: "Login \<Rightarrow> Cmd" where
  "commandLogin login =
     (let args = [''--storage-driver'', ''vfs'', ''login'', ''-u'', Username login, ''-p'', Password login];
          args = (if Email login \<noteq> [] then args @ [''-e'', Email login] else args);
          args = args @ [Registry login]
      in buildahExe # args)"

definition commandPull :: "string \<Rightarrow> Cmd" where
  "commandPull repo = [buildahExe, ''--storage-driver'', ''vfs'', ''pull'', repo]"

definition commandVersion :: Cmd where
  "commandVersion = [buildahExe, ''--storage-driver'', ''vfs'', ''version'']"

definition commandInfo :: Cmd where
  "commandInfo = [buildahExe, ''--storage-driver'', ''vfs'', ''info'']"

definition commandTag :: "Build \<Rightarrow> string \<Rightarrow> Cmd" where
  "commandTag build tag =
     (let source = Name build;
          target = Repo build @ '':'' @ tag
      in [buildahExe, ''--storage-driver'', ''vfs'', ''tag'', source, target])"

definition commandPush :: "Build \<Rightarrow> string \<Rightarrow> Cmd" where
  "commandPush build tag =
     (let target = Repo build @ '':'' @ tag
      in [buildahExe, ''--storage-driver'', ''vfs'', ''push'', target])"

definition commandRmi :: "string \<Rightarrow> Cmd" where
  "commandRmi tag = [buildahExe, ''--storage-driver'', ''vfs'', ''rmi'', tag]"

section \<open>Command constructors of the second file (debug.sh, lines 185-208, 338-353)\<close>

definition commandLogin_v :: "Login \<Rightarrow> Cmd" where
  "commandLogin_v login =
     [buildahExe, ''login'', ''-u'', Username login, ''-p'', Password login, Registry login]"

definition commandPull_v :: "string \<Rightarrow> Cmd" where
  "commandPull_v repo = [buildahExe, ''pull'', ''--storage-driver'', ''vfs'', repo]"

definition commandVersion_v :: Cmd where
  "commandVersion_v = [buildahExe, ''version'']"

definition commandInfo_v :: Cmd where
  "commandInfo_v = [buildahExe, ''info'']"

definition commandTag_v :: "Build \<Rightarrow> string \<Rightarrow> Cmd" where
  "commandTag_v build tag =
     (let source = Name build;
          target = Repo build @ '':'' @ tag
      in [buildahExe, ''tag'', source, target])"

definition commandPush_v :: "Build \<Rightarrow> string \<Rightarrow> Cmd" where
  "commandPush_v build tag =
     (let target = Repo build @ '':'' @ tag
      in [buildahExe, ''push'', target])"

definition commandRmi_v :: "string \<Rightarrow> Cmd" where
  "commandRmi_v tag = [buildahExe, ''rmi'', tag]"

text \<open>The classifiers the second file's executor uses on a failed command.\<close>

definition isCommandPull :: "Cmd \<Rightarrow> bool" where
  "isCommandPull args = (length args > 2 \<and> args ! 1 = ''pull'')"

definition isCommandPrune :: "Cmd \<Rightarrow> bool" where
  "isCommandPrune args = (length args > 3 \<and> args ! 2 = ''prune'')"

definition isCommandRmi :: "Cmd \<Rightarrow> bool" where
  "isCommandRmi args = (length args > 2 \<and> args ! 1 = ''rmi'')"

section \<open>The build command (docker.go, lines 194-283; debug.sh, lines 210-299)\<close>

text \<open>
  The two files differ in the initial value of \<^verbatim>\<open>args\<close> only; from the \<^verbatim>\<open>Squash\<close> test to
  the final \<^verbatim>\<open>exec.Command\<close> the text is the same, and is modelled once as
  \<open>commandBuildFrom\<close>, which takes the initial \<^verbatim>\<open>args\<close>. The build is passed by value, so
  the arguments that the \<^verbatim>\<open>ArgsEnv\<close> loop adds are seen by this call only. The parameter
  \<open>now\<close> is \<^verbatim>\<open>time.Now().Format(time.RFC3339)\<close>.
\<close>

definition s3Args :: "Build \<Rightarrow> string list \<Rightarrow> string list" where
  "s3Args build args =
     (let args = args @ [''--s3-local-cache-dir'', S3CacheDir build];
          args = (if S3Bucket build \<noteq> [] then args @ [''--s3-bucket'', S3Bucket build] else args);
          args = (if S3Endpoint build \<noteq> [] then args @ [''--s3-endpoint'', S3Endpoint build] else args);
          args = (if S3Region build \<noteq> [] then args @ [''--s3-region'', S3Region build] else args);
          args = (if S3Key build \<noteq> [] then args @ [''--s3-key'', S3Key build] else args);
          args = (if S3Secret build \<noteq> [] then args @ [''--s3-secret'', S3Secret build] else args);
          args = (if S3UseSSL build then args @ [''--s3-use-ssl=true''] else args)
      in args)"

definition autoLabelArgs :: "string \<Rightarrow> Build \<Rightarrow> string list \<Rightarrow> string list" where
  "autoLabelArgs now build args =
     (let labelSchema = [''created='' @ now, ''revision='' @ Name build,
                         ''source='' @ Remote build, ''url='' @ Link build];
          labelPrefix = ''org.opencontainers.image'';
          labelSchema = (if length (LabelSchema build) > 0 then labelSchema @ LabelSchema build
                         else labelSchema)
      in foldl (\<lambda>args label. args @ [''--label'', labelPrefix @ ''.'' @ label]) args labelSchema)"

text \<open>The loop over \<^verbatim>\<open>build.ArgsEnv\<close> (docker.go, lines 216-218).\<close>

definition argsEnvLoop :: "Upper \<Rightarrow> Environ \<Rightarrow> Build \<Rightarrow> Build" where
  "argsEnvLoop up env build = foldl (\<lambda>build arg. addProxyValue up env build arg) build (ArgsEnv build)"

definition commandBuildFrom :: "Upper \<Rightarrow> Environ \<Rightarrow> string \<Rightarrow> Build \<Rightarrow> string list \<Rightarrow> Cmd" where
  "commandBuildFrom up env now build args =
     (let args = (if Squash build then args @ [''--squash''] else args);
          args = (if Compress build then args @ [''--compress''] else args);
          args = (if Pull build then args @ [''--pull=true''] else args);
          args = (if NoCache build then args @ [''--no-cache''] else args);
          args = foldl (\<lambda>args arg. args @ [''--cache-from'', arg]) args (CacheFrom build);
          build = argsEnvLoop up env build;
          args = foldl (\<lambda>args arg. args @ [''--build-arg'', arg]) args (Args build);
          args = foldl (\<lambda>args host. args @ [''--add-host'', host]) args (AddHost build);
          args = (if Target build \<noteq> [] then args @ [''--target'', Target build] else args);
          args = (if Quiet build then args @ [''--quiet''] else args);
          args = (if Layers build then
                    (let args = args @ [''--layers=true'']
                     in if S3CacheDir build \<noteq> [] then s3Args build args else args)
                  else args);
          args = (if AutoLabel build then autoLabelArgs now build args else args);
          args = (if length (Labels build) > 0 then
                    foldl (\<lambda>args label. args @ [''--label'', label]) args (Labels build)
                  else args);
          args = args @ [''-t'', Name build];
          args = args @ [Context build]
      in buildahExe # args)"

definition commandBuild :: "Upper \<Rightarrow> Environ \<Rightarrow> string \<Rightarrow> Build \<Rightarrow> Cmd" where
  "commandBuild up env now build =
     commandBuildFrom up env now build [''--storage-driver'', ''vfs'', ''bud'', ''-f'', Dockerfile build]"

definition commandBuild_v :: "Upper \<Rightarrow> Environ \<Rightarrow> string \<Rightarrow> Build \<Rightarrow> Cmd" where
  "commandBuild_v up env now build =
     commandBuildFrom up env now build [''bud'', ''--format'', ''docker'', ''-f'', Dockerfile build]"

section \<open>The command list of Exec (docker.go, lines 108-129; debug.sh, lines 139-160)\<close>

text \<open>The list is built by appending, in the order of the source; \<open>p\<close> is the plugin after
  \<^verbatim>\<open>addProxyBuildArgs(&p.Build)\<close>, and \<open>env\<close> the environment at that point.\<close>

definition ExecCmds :: "Upper \<Rightarrow> Environ \<Rightarrow> string \<Rightarrow> Plugin \<Rightarrow> Cmd list" where
  "ExecCmds up env now p =
     (let cmds = [];
          cmds = cmds @ [commandVersion];
          cmds = cmds @ [commandInfo];
          cmds = foldl (\<lambda>cmds img. cmds @ [commandPull img]) cmds (CacheFrom (Build p));
          cmds = cmds @ [commandBuild up env now (Build p)];
          cmds = foldl (\<lambda>cmds tag.
                   (let cmds = cmds @ [commandTag (Build p) tag]
                    in if \<not> Dryrun p then cmds @ [commandPush (Build p) tag] else cmds))
                   cmds (Tags (Build p));
          cmds = (if Cleanup p then cmds @ [commandRmi (Name (Build p))] else cmds)
      in cmds)"

definition ExecCmds_v :: "Upper \<Rightarrow> Environ \<Rightarrow> string \<Rightarrow> Plugin \<Rightarrow> Cmd list" where
  "ExecCmds_v up env now p =
     (let cmds = [];
          cmds = cmds @ [commandVersion_v];
          cmds = cmds @ [commandInfo_v];
          cmds = foldl (\<lambda>cmds img. cmds @ [commandPull_v img]) cmds (CacheFrom (Build p));
          cmds = cmds @ [commandBuild_v up env now (Build p)];
          cmds = foldl (\<lambda>cmds tag.
                   (let cmds = cmds @ [commandTag_v (Build p) tag]
                    in if \<not> Dryrun p then cmds @ [commandPush_v (Build p) tag] else cmds))
                   cmds (Tags (Build p));
          cmds = (if Cleanup p then cmds @ [commandRmi_v (Name (Build p))] else cmds)
      in cmds)"

section \<open>The process and its surroundings\<close>

text \<open>
  What Exec does to the outside is made explicit. The state of the running plugin is its
  environment variables, what it has written to standard output, and the outside world
  \<open>'w\<close> (file system, registry, the buildah processes). The operations on the outside
  are parameters: each returns the error text (\<open>None\<close> for a nil error) and the new world.
  \<^verbatim>\<open>filepath.Join\<close> is a parameter as well. The output of the child processes, which
  share the plugin's standard streams, belongs to the world. File modes are written in
  decimal: 0700 is 448, 0600 is 384, 0755 is 493, 0644 is 420.
\<close>

record 'w Sys =
  FilepathJoin :: "string list \<Rightarrow> string"
  MkdirAll :: "string \<Rightarrow> nat \<Rightarrow> 'w \<Rightarrow> string option \<times> 'w"
  WriteFile :: "string \<Rightarrow> string \<Rightarrow> nat \<Rightarrow> 'w \<Rightarrow> string option \<times> 'w"
  UserCurrentHome :: "'w \<Rightarrow> string + string"
  Run :: "Cmd \<Rightarrow> Environ \<Rightarrow> 'w \<Rightarrow> string option \<times> 'w"

record 'w Proc =
  environ :: Environ
  stdout :: "string list"
  world :: "'w"

definition Print :: "string \<Rightarrow> 'w Proc \<Rightarrow> 'w Proc" where
  "Print text s = s\<lparr>stdout := stdout s @ [text]\<rparr>"

definition OsSetenv :: "string \<Rightarrow> string \<Rightarrow> 'w Proc \<Rightarrow> 'w Proc" where
  "OsSetenv k v s = s\<lparr>environ := Setenv k v (environ s)\<rparr>"

definition RunCmd :: "'w Sys \<Rightarrow> Cmd \<Rightarrow> 'w Proc \<Rightarrow> string option \<times> 'w Proc" where
  "RunCmd sys cmd s = (case Run sys cmd (environ s) (world s) of (err, w) \<Rightarrow> (err, s\<lparr>world := w\<rparr>))"

definition trace :: "Cmd \<Rightarrow> 'w Proc \<Rightarrow> 'w Proc" where
  "trace cmd s = Print (''+ '' @ Join cmd '' '' @ ''\<newline>'') s"

section \<open>Exec of docker.go (lines 67-171)\<close>

definition createAuthConfig :: "'w Sys \<Rightarrow> string \<Rightarrow> string \<Rightarrow> 'w Proc \<Rightarrow> string option \<times> 'w Proc" where
  "createAuthConfig sys config tmpDir s =
     (let authDir = FilepathJoin sys [tmpDir, ''auth''] in
      case MkdirAll sys authDir 448 (world s) of
        (Some err, w) \<Rightarrow> (Some (''error creating auth directory: '' @ err), s\<lparr>world := w\<rparr>)
      | (None, w) \<Rightarrow>
          (let s = s\<lparr>world := w\<rparr>;
               authPath = FilepathJoin sys [authDir, ''auth.json''] in
           case WriteFile sys authPath config 384 (world s) of
             (Some err, w) \<Rightarrow> (Some (''error writing auth.json: '' @ err), s\<lparr>world := w\<rparr>)
           | (None, w) \<Rightarrow>
               (let s = s\<lparr>world := w\<rparr>;
                    s = OsSetenv ''REGISTRY_AUTH_FILE'' authPath s;
                    s = Print (''Config written to '' @ authPath @ ''\<newline>'') s
                in (None, s))))"

definition dockerLogin :: "'w Sys \<Rightarrow> Login \<Rightarrow> 'w Proc \<Rightarrow> string option \<times> 'w Proc" where
  "dockerLogin sys login s =
     (let cmd = commandLogin login in
      case RunCmd sys cmd s of
        (Some err, s) \<Rightarrow> (Some (''error authenticating: '' @ err), s)
      | (None, s) \<Rightarrow> (None, s))"

text \<open>The batch loop (lines 131-143): every error of \<^verbatim>\<open>cmd.Run\<close> is returned, wrapped.\<close>

fun runBatch :: "'w Sys \<Rightarrow> Cmd list \<Rightarrow> 'w Proc \<Rightarrow> string option \<times> 'w Proc" where
  "runBatch sys [] s = (None, s)"
| "runBatch sys (cmd # cmds) s =
     (let s = trace cmd s in
      case RunCmd sys cmd s of
        (Some err, s) \<Rightarrow>
          (Some (''command failed: '' @ Join cmd '' '' @ ''\<newline>error: '' @ err), s)
      | (None, s) \<Rightarrow> runBatch sys cmds s)"

definition storageConf :: "string \<Rightarrow> string" where
  \<open>storageConf tmpDir =
     ''\<newline>[storage]\<newline>driver = "vfs"\<newline>runroot = "'' @ tmpDir @ ''/runroot"\<newline>graphroot = "'' @ tmpDir @
     ''/graphroot"\<newline>''\<close>

text \<open>The body of Exec is cut in two: \<open>ExecPrepare\<close> is lines 68-96 (environment, storage
  configuration, auth file), \<open>Exec\<close> goes on from line 98 (login, proxy arguments, command
  list, batch loop). The receiver is passed by value: the update of \<^verbatim>\<open>p.Build\<close> is local.\<close>

definition ExecPrepare :: "'w Sys \<Rightarrow> Plugin \<Rightarrow> 'w Proc \<Rightarrow> string option \<times> 'w Proc" where
  "ExecPrepare sys p s =
     (let s = OsSetenv ''STORAGE_DRIVER'' ''vfs'' s;
          tmpDir = ''/tmp/buildah-plugin'' in
      case MkdirAll sys tmpDir 493 (world s) of
        (Some err, w) \<Rightarrow> (Some (''error creating temporary directory: '' @ err), s\<lparr>world := w\<rparr>)
      | (None, w) \<Rightarrow>
     (let s = s\<lparr>world := w\<rparr>;
          storageConfPath = FilepathJoin sys [tmpDir, ''storage.conf''] in
      case WriteFile sys storageConfPath (storageConf tmpDir) 420 (world s) of
        (Some err, w) \<Rightarrow> (Some (''error writing storage.conf: '' @ err), s\<lparr>world := w\<rparr>)
      | (None, w) \<Rightarrow>
     (let s = s\<lparr>world := w\<rparr>;
          s = OsSetenv ''CONTAINERS_STORAGE_CONF'' storageConfPath s in
      if Config (Login p) \<noteq> [] then createAuthConfig sys (Config (Login p)) tmpDir s
      else (None, s))))"

definition Exec :: "Upper \<Rightarrow> 'w Sys \<Rightarrow> string \<Rightarrow> Plugin \<Rightarrow> 'w Proc \<Rightarrow> string option \<times> 'w Proc" where
  "Exec up sys now p s =
     (case ExecPrepare sys p s of
        (Some err, s) \<Rightarrow> (Some err, s)
      | (None, s) \<Rightarrow>
     (case (if Password (Login p) \<noteq> [] then dockerLogin sys (Login p) s else (None, s)) of
        (Some err, s) \<Rightarrow> (Some err, s)
      | (None, s) \<Rightarrow>
     (let p = p\<lparr>Build := addProxyBuildArgs up (environ s) (Build p)\<rparr>;
          cmds = ExecCmds up (environ s) now p
      in runBatch sys cmds s)))"

section \<open>Exec of the second file (debug.sh, lines 79-183)\<close>

text \<open>The batch loop (lines 162-180): a failed command that is a pull, a prune or an rmi is
  reported on standard output and the loop goes on; any other error is returned as it is.
  The message names \<^verbatim>\<open>cmd.Args[2]\<close>, which exists since each classifier asks for more than
  two arguments.\<close>

fun runBatch_v :: "'w Sys \<Rightarrow> Cmd list \<Rightarrow> 'w Proc \<Rightarrow> string option \<times> 'w Proc" where
  "runBatch_v sys [] s = (None, s)"
| "runBatch_v sys (cmd # cmds) s =
     (let s = trace cmd s in
      case RunCmd sys cmd s of
        (Some err, s) \<Rightarrow>
          (if isCommandPull cmd then
             runBatch_v sys cmds
               (Print (''Could not pull cache-from image '' @ cmd ! 2 @ ''. Ignoring...\<newline>'') s)
           else if isCommandPrune cmd then
             runBatch_v sys cmds (Print ''Could not prune system containers. Ignoring...\<newline>'' s)
           else if isCommandRmi cmd then
             runBatch_v sys cmds
               (Print (''Could not remove image '' @ cmd ! 2 @ ''. Ignoring...\<newline>'') s)
           else (Some err, s))
      | (None, s) \<Rightarrow> runBatch_v sys cmds s)"

definition storageConf_v :: string where
  \<open>storageConf_v =
     ''[storage]\<newline>'' @ [CHR 0x09] @ ''driver = "vfs"\<newline>'' @ [CHR 0x09] @
     ''runroot = "/tmp/buildah-run-$(id -u)"\<newline>'' @ [CHR 0x09] @
     ''graphroot = "/tmp/buildah-graph-$(id -u)"''\<close>

text \<open>\<open>ExecPrepare_v\<close> is lines 81-114, \<open>Exec_v\<close> goes on from line 116.\<close>

definition ExecPrepare_v :: "'w Sys \<Rightarrow> Plugin \<Rightarrow> 'w Proc \<Rightarrow> string option \<times> 'w Proc" where
  "ExecPrepare_v sys p s =
     (case UserCurrentHome sys (world s) of
        Inl err \<Rightarrow> (Some (''error getting current user: '' @ err), s)
      | Inr homeDir \<Rightarrow>
     (let storageConfDir = FilepathJoin sys [homeDir, ''.config'', ''containers''] in
      case MkdirAll sys storageConfDir 448 (world s) of
        (Some err, w) \<Rightarrow> (Some (''error creating storage config directory: '' @ err), s\<lparr>world := w\<rparr>)
      | (None, w) \<Rightarrow>
     (let s = s\<lparr>world := w\<rparr>;
          storageConfPath = FilepathJoin sys [storageConfDir, ''storage.conf''] in
      case WriteFile sys storageConfPath storageConf_v 384 (world s) of
        (Some err, w) \<Rightarrow> (Some (''error writing storage.conf: '' @ err), s\<lparr>world := w\<rparr>)
      | (None, w) \<Rightarrow>
     (let s = s\<lparr>world := w\<rparr>;
          s = OsSetenv ''STORAGE_DRIVER'' ''vfs'' s;
          s = OsSetenv ''BUILDAH_ISOLATION'' ''rootless'' s;
          s = OsSetenv ''CONTAINERS_STORAGE_CONF'' storageConfPath s in
      if Config (Login p) \<noteq> [] then
        (let authPath = FilepathJoin sys [storageConfDir, ''auth.json''] in
         case WriteFile sys authPath (Config (Login p)) 384 (world s) of
           (Some err, w) \<Rightarrow> (Some (''error writing auth.json: '' @ err), s\<lparr>world := w\<rparr>)
         | (None, w) \<Rightarrow>
             (None, Print (''Config written to '' @ authPath @ ''\<newline>'') (s\<lparr>world := w\<rparr>)))
      else (None, s)))))"

definition Exec_v :: "Upper \<Rightarrow> 'w Sys \<Rightarrow> string \<Rightarrow> Plugin \<Rightarrow> 'w Proc \<Rightarrow> string option \<times> 'w Proc" where
  "Exec_v up sys now p s =
     (case ExecPrepare_v sys p s of
        (Some err, s) \<Rightarrow> (Some err, s)
      | (None, s) \<Rightarrow>
     (case (if Password (Login p) \<noteq> [] then
              (let cmd = commandLogin_v (Login p) in
               case RunCmd sys cmd s of
                 (Some err, s) \<Rightarrow> (Some (''error authenticating: '' @ err), s)
               | (None, s) \<Rightarrow> (None, s))
            else (None, s)) of
        (Some err, s) \<Rightarrow> (Some err, s)
      | (None, s) \<Rightarrow>
     (let s = (if Password (Login p) \<noteq> [] then Print ''Detected registry credentials\<newline>'' s
               else if Config (Login p) \<noteq> [] then Print ''Detected registry credentials file\<newline>'' s
               else Print ''Registry credentials or Docker config not provided. Guest mode enabled.\<newline>'' s);
          p = p\<lparr>Build := addProxyBuildArgs up (environ s) (Build p)\<rparr>;
          cmds = ExecCmds_v up (environ s) now p
      in runBatch_v sys cmds s)))"

section \<open>The sequencer and the build arguments in the words of the specification\<close>








text \<open>
  Section 4.3 of the specification, on the environment-sourced argument names: for each
  name, in the order listed, the value is read from the environment; when it is present
  and no build argument so far uses the name (as a prefix, in the spelling given or in
  upper case), the name with the value and the upper-case name with the value are added.
  \<open>spec_envArgs up env args names\<close> is the list of arguments so added, where \<open>args\<close> are the
  build arguments present before.
\<close>

fun spec_envArgs :: "Upper \<Rightarrow> Environ \<Rightarrow> string list \<Rightarrow> string list \<Rightarrow> string list" where
  "spec_envArgs up env args [] = []"
| "spec_envArgs up env args (name # names) =
     (let v = getProxyValue up env name;
          new = (if v \<noteq> [] \<and> \<not> (\<exists>a \<in> set args. HasPrefix a name \<or> HasPrefix a (ToUpper up name))
                 then [name @ ''='' @ v, ToUpper up name @ ''='' @ v] else [])
      in new @ spec_envArgs up env (args @ new) names)"

section \<open>Sample inputs\<close>

text \<open>A build with two tags, two cache images, one explicit build argument and one
  environment-sourced argument name; a plugin around it; an environment that sets the
  lower-case HTTP proxy and the variable \<^verbatim>\<open>foo\<close>.\<close>

definition sampleBuild :: Build where
  "sampleBuild = \<lparr>Remote = ''https://git.example/r.git'', Name = ''abc123'',
     Dockerfile = ''Dockerfile'', Context = ''.'', Tags = [''v1'', ''v2''], Args = [''A=1''],
     ArgsEnv = [''foo''], Target = [], Squash = False, Pull = True, CacheFrom = [''a'', ''b''],
     Compress = False, Repo = ''org/img'', LabelSchema = [''version=1''], AutoLabel = True,
     Labels = [''team=x''], Link = ''https://git.example/r'', NoCache = False,
     AddHost = [''h:10.0.0.1''], Quiet = False, S3CacheDir = [], S3Bucket = [], S3Endpoint = [],
     S3Region = [], S3Key = [], S3Secret = [], S3UseSSL = False, Layers = False\<rparr>"

definition sampleLogin :: Login where
  "sampleLogin = \<lparr>Registry = ''docker.io'', Username = ''u'', Password = [], Email = [], Config = []\<rparr>"

definition samplePlugin :: Plugin where
  "samplePlugin = \<lparr>Login = sampleLogin, Build = sampleBuild, Dryrun = False, Cleanup = True\<rparr>"

text \<open>A stand-in for the Unicode mapping. The samples have one name that is not ASCII, the
  letter e with acute accent, in UTF-8 the bytes C3 A9; its upper-case form is the bytes
  C3 89, as in the Unicode tables. The other sample names are ASCII, so the mapping is
  never applied to them.\<close>

definition sampleUpper :: Upper where
  "sampleUpper s = (if s = [CHR 0xC3, CHR 0xA9] then [CHR 0xC3, CHR 0x89] else s)"

definition sampleEnv :: Environ where
  "sampleEnv = [''http_proxy'' \<mapsto> ''http://proxy:3128'', ''foo'' \<mapsto> ''2'']"

text \<open>A build whose \<^verbatim>\<open>ArgsEnv\<close> has a name without value, a repeated name and the name that
  is not ASCII, and an environment that gives the last one a value.\<close>

definition envBuild :: Build where
  "envBuild = sampleBuild\<lparr>ArgsEnv := [''foo'', ''bar'', ''foo'', [CHR 0xC3, CHR 0xA9]]\<rparr>"

definition envEnv :: Environ where
  "envEnv = sampleEnv([CHR 0xC3, CHR 0xA9] \<mapsto> ''1'')"

text \<open>An outside world that records the commands run, in order. Directories and files are
  always created; a command fails with \<^verbatim>\<open>exit status 125\<close> when \<open>fails\<close> holds of it.\<close>

definition sampleSys :: "(Cmd \<Rightarrow> bool) \<Rightarrow> (Cmd list) Sys" where
  "sampleSys fails = \<lparr>
     FilepathJoin = (\<lambda>parts. Join parts ''/''),
     MkdirAll = (\<lambda>path perm w. (None, w)),
     WriteFile = (\<lambda>path content perm w. (None, w)),
     UserCurrentHome = (\<lambda>w. Inr ''/home/build''),
     Run = (\<lambda>cmd env w. (if fails cmd then Some ''exit status 125'' else None, w @ [cmd]))\<rparr>"


text \<open>Further failure patterns: the command whose token at index \<open>i\<close> is one of the given
  names fails, every other command succeeds.\<close>

definition failsAt :: "nat \<Rightarrow> string list \<Rightarrow> Cmd \<Rightarrow> bool" where
  "failsAt i names cmd = (i < length cmd \<and> cmd ! i \<in> set names)"

definition sampleProc :: "(Cmd list) Proc" where
  "sampleProc = \<lparr>environ = sampleEnv, stdout = [], world = []\<rparr>"

text \<open>The state in which the sample process is after the preparation of Exec, for
  docker.go and for the second file.\<close>

definition samplePrepared :: "(Cmd list) Proc" where
  "samplePrepared =
     OsSetenv ''CONTAINERS_STORAGE_CONF'' ''/tmp/buildah-plugin/storage.conf''
       (OsSetenv ''STORAGE_DRIVER'' ''vfs'' sampleProc)"

definition samplePrepared_v :: "(Cmd list) Proc" where
  "samplePrepared_v =
     OsSetenv ''CONTAINERS_STORAGE_CONF'' ''/home/build/.config/containers/storage.conf''
       (OsSetenv ''BUILDAH_ISOLATION'' ''rootless'' (OsSetenv ''STORAGE_DRIVER'' ''vfs'' sampleProc))"

section \<open>Facts about the library functions\<close>

lemma ToUpper_http: "ToUpper up ''http_proxy'' = ''HTTP_PROXY''"
  by code_simp

lemma ToUpper_https: "ToUpper up ''https_proxy'' = ''HTTPS_PROXY''"
  by code_simp

lemma ToUpper_no: "ToUpper up ''no_proxy'' = ''NO_PROXY''"
  by code_simp

lemma HasPrefix_append: "HasPrefix (k @ r) k"
  by (simp add: HasPrefix_def)

lemma foldl_snoc_concat: "foldl (\<lambda>acc x. acc @ f x) acc xs = acc @ concat (map f xs)"
  by (induction xs arbitrary: acc) simp_all

section \<open>Facts about the proxy build arguments\<close>

lemma hasProxyLoop_iff:
  "hasProxyLoop key ku ss \<longleftrightarrow> (\<exists>s \<in> set ss. HasPrefix s key \<or> HasPrefix s ku)"
  by (induction ss) auto

lemma hasProxyBuildArg_iff:
  "hasProxyBuildArg up build key \<longleftrightarrow>
     (\<exists>s \<in> set (Args build). HasPrefix s key \<or> HasPrefix s (ToUpper up key))"
  by (simp add: hasProxyBuildArg_def hasProxyLoop_iff)

lemma addProxyValue_eq:
  "addProxyValue up env build key =
     build\<lparr>Args := Args build @
       (if getProxyValue up env key \<noteq> [] \<and> \<not> hasProxyBuildArg up build key
        then [key @ ''='' @ getProxyValue up env key, ToUpper up key @ ''='' @ getProxyValue up env key]
        else [])\<rparr>"
  by (simp add: addProxyValue_def Let_def)

lemma addProxyValue_mono:
  "hasProxyBuildArg up build k \<Longrightarrow> hasProxyBuildArg up (addProxyValue up env build key) k"
  by (auto simp: addProxyValue_eq hasProxyBuildArg_iff)

lemma addProxyValue_present:
  assumes "getProxyValue up env key \<noteq> []"
  shows "hasProxyBuildArg up (addProxyValue up env build key) key"
proof (cases "hasProxyBuildArg up build key")
  case True
  then show ?thesis by (rule addProxyValue_mono)
next
  case False
  have "key @ ''='' @ getProxyValue up env key \<in> set (Args (addProxyValue up env build key))"
    using assms False by (simp add: addProxyValue_eq)
  moreover have "HasPrefix (key @ ''='' @ getProxyValue up env key) key"
    by (rule HasPrefix_append)
  ultimately show ?thesis unfolding hasProxyBuildArg_iff by blast
qed

lemma addProxyValue_noop:
  "getProxyValue up env key = [] \<or> hasProxyBuildArg up build key \<Longrightarrow> addProxyValue up env build key = build"
  by (auto simp: addProxyValue_eq)

lemma addProxyValue_settled:
  "getProxyValue up env key = [] \<or> hasProxyBuildArg up (addProxyValue up env build key) key"
  using addProxyValue_present by blast

lemma addProxyValue_settled_mono:
  "getProxyValue up env k = [] \<or> hasProxyBuildArg up build k \<Longrightarrow>
   getProxyValue up env k = [] \<or> hasProxyBuildArg up (addProxyValue up env build key) k"
  using addProxyValue_mono by blast

lemma argsEnv_fold_frame:
  "\<exists>extra. foldl (\<lambda>build arg. addProxyValue up env build arg) build ks = build\<lparr>Args := Args build @ extra\<rparr>"
proof (induction ks arbitrary: build)
  case Nil
  have "build = build\<lparr>Args := Args build @ []\<rparr>" by simp
  then show ?case by (metis foldl_Nil)
next
  case (Cons k ks)
  obtain e1 where e1: "addProxyValue up env build k = build\<lparr>Args := Args build @ e1\<rparr>"
    using addProxyValue_eq by blast
  obtain e2 where e2: "foldl (\<lambda>build arg. addProxyValue up env build arg) (addProxyValue up env build k) ks
      = (addProxyValue up env build k)\<lparr>Args := Args (addProxyValue up env build k) @ e2\<rparr>"
    using Cons.IH by blast
  have "foldl (\<lambda>build arg. addProxyValue up env build arg) build (k # ks) = build\<lparr>Args := Args build @ (e1 @ e2)\<rparr>"
    using e2 by (simp add: e1)
  then show ?case by blast
qed

lemma argsEnvLoop_frame: "\<exists>extra. argsEnvLoop up env build = build\<lparr>Args := Args build @ extra\<rparr>"
  unfolding argsEnvLoop_def by (rule argsEnv_fold_frame)

lemma addProxyBuildArgs_frame:
  "\<exists>extra. addProxyBuildArgs up env build = build\<lparr>Args := Args build @ extra\<rparr>"
proof -
  have "addProxyBuildArgs up env build =
        foldl (\<lambda>build arg. addProxyValue up env build arg) build [''http_proxy'', ''https_proxy'', ''no_proxy'']"
    by (simp add: addProxyBuildArgs_def)
  then show ?thesis using argsEnv_fold_frame by metis
qed

lemma argsEnv_fold_spec:
  "Args (foldl (\<lambda>build arg. addProxyValue up env build arg) build names) =
     Args build @ spec_envArgs up env (Args build) names"
proof (induction names arbitrary: build)
  case Nil
  show ?case by simp
next
  case (Cons k names)
  show ?case
    using Cons.IH [of "addProxyValue up env build k"]
    by (simp add: addProxyValue_eq hasProxyBuildArg_iff Let_def)
qed

lemma argsEnvLoop_spec:
  "Args (argsEnvLoop up env build) = Args build @ spec_envArgs up env (Args build) (ArgsEnv build)"
  by (simp add: argsEnvLoop_def argsEnv_fold_spec)

section \<open>The claims about the proxy build arguments\<close>

subsection \<open>Claim C4\<close>

text \<open>
  C4. Proxy-argument injection is idempotent: for every build and every environment,
  running \<^verbatim>\<open>addProxyBuildArgs\<close> on the result of a first run leaves the build, and so its
  list of build arguments, as the first run left it. After the first run each proxy key
  either has no value in the environment or is the prefix of an argument, so the second
  run appends nothing.
\<close>

theorem addProxyBuildArgs_idempotent:
  "addProxyBuildArgs up env (addProxyBuildArgs up env build) = addProxyBuildArgs up env build"
proof -
  define b1 where "b1 = addProxyValue up env build ''http_proxy''"
  define b2 where "b2 = addProxyValue up env b1 ''https_proxy''"
  define b3 where "b3 = addProxyValue up env b2 ''no_proxy''"
  have r: "addProxyBuildArgs up env build = b3"
    by (simp add: addProxyBuildArgs_def b1_def b2_def b3_def)
  have h1: "getProxyValue up env ''http_proxy'' = [] \<or> hasProxyBuildArg up b3 ''http_proxy''"
    unfolding b3_def b2_def b1_def
    by (intro addProxyValue_settled_mono addProxyValue_settled)
  have h2: "getProxyValue up env ''https_proxy'' = [] \<or> hasProxyBuildArg up b3 ''https_proxy''"
    unfolding b3_def b2_def
    by (intro addProxyValue_settled_mono addProxyValue_settled)
  have h3: "getProxyValue up env ''no_proxy'' = [] \<or> hasProxyBuildArg up b3 ''no_proxy''"
    unfolding b3_def by (rule addProxyValue_settled)
  have s1: "addProxyValue up env b3 ''http_proxy'' = b3"
    using h1 by (rule addProxyValue_noop)
  have s2: "addProxyValue up env b3 ''https_proxy'' = b3"
    using h2 by (rule addProxyValue_noop)
  have s3: "addProxyValue up env b3 ''no_proxy'' = b3"
    using h3 by (rule addProxyValue_noop)
  have "addProxyBuildArgs up env b3 = b3"
    by (simp add: addProxyBuildArgs_def s1 s2 s3)
  then show ?thesis by (simp add: r)
qed

theorem addProxyBuildArgs_idempotent_witness:
  "Args (addProxyBuildArgs sampleUpper sampleEnv (addProxyBuildArgs sampleUpper sampleEnv sampleBuild)) =
     [''A=1'', ''http_proxy=http://proxy:3128'', ''HTTP_PROXY=http://proxy:3128'']"
proof -
  have "Args (addProxyBuildArgs sampleUpper sampleEnv sampleBuild) =
     [''A=1'', ''http_proxy=http://proxy:3128'', ''HTTP_PROXY=http://proxy:3128'']"
    by code_simp
  then show ?thesis
    by (simp only: addProxyBuildArgs_idempotent [of sampleUpper sampleEnv sampleBuild])
qed

subsection \<open>Claim C7\<close>

text \<open>
  C7 says that the presence check is case-insensitive on the key prefix: an argument whose
  leading characters equal the proxy key in any letter-casing counts as present. The
  check compares with two spellings only. With the argument \<^verbatim>\<open>Http_Proxy=x\<close> and the
  key \<^verbatim>\<open>http_proxy\<close> the leading characters agree up to case, yet \<^verbatim>\<open>hasProxyBuildArg\<close>
  answers false and \<^verbatim>\<open>addProxyValue\<close> appends the pair again.
\<close>

theorem hasProxyBuildArg_mixed_case_counterexample:
  "ToUpper sampleUpper (take (length ''http_proxy'') ''Http_Proxy=x'') = ToUpper sampleUpper ''http_proxy''
   \<and> \<not> hasProxyBuildArg sampleUpper (sampleBuild\<lparr>Args := [''Http_Proxy=x'']\<rparr>) ''http_proxy''
   \<and> Args (addProxyValue sampleUpper sampleEnv (sampleBuild\<lparr>Args := [''Http_Proxy=x'']\<rparr>) ''http_proxy'')
       = [''Http_Proxy=x'', ''http_proxy=http://proxy:3128'', ''HTTP_PROXY=http://proxy:3128'']"
  by code_simp

text \<open>
  C7 as amended. \<^verbatim>\<open>hasProxyBuildArg\<close> reports the key present exactly when some argument
  starts with the key as it is given or with its all-upper-case form; when it does,
  \<^verbatim>\<open>addProxyValue\<close> leaves the build unchanged.
\<close>

theorem hasProxyBuildArg_two_spellings:
  "(hasProxyBuildArg up build key \<longleftrightarrow>
      (\<exists>s \<in> set (Args build). HasPrefix s key \<or> HasPrefix s (ToUpper up key)))
   \<and> (hasProxyBuildArg up build key \<longrightarrow> addProxyValue up env build key = build)"
  using hasProxyBuildArg_iff [of up build key] addProxyValue_noop [of up env key build] by blast

theorem hasProxyBuildArg_two_spellings_witness:
  "hasProxyBuildArg sampleUpper (sampleBuild\<lparr>Args := [''HTTP_PROXY=x'']\<rparr>) ''http_proxy''
   \<and> addProxyValue sampleUpper sampleEnv (sampleBuild\<lparr>Args := [''HTTP_PROXY=x'']\<rparr>) ''http_proxy''
       = sampleBuild\<lparr>Args := [''HTTP_PROXY=x'']\<rparr>"
proof -
  have h: "hasProxyBuildArg sampleUpper (sampleBuild\<lparr>Args := [''HTTP_PROXY=x'']\<rparr>) ''http_proxy''"
    by code_simp
  show ?thesis
    using h hasProxyBuildArg_two_spellings
      [of sampleUpper "sampleBuild\<lparr>Args := [''HTTP_PROXY=x'']\<rparr>" "''http_proxy''" sampleEnv]
    by blast
qed

subsection \<open>Claim C8\<close>

text \<open>
  C8. \<^verbatim>\<open>getProxyValue\<close> returns the value of the variable named by the key when that value
  is not empty, and the value of the upper-case variable otherwise. When the value found
  is not empty and no argument uses the key, \<^verbatim>\<open>addProxyValue\<close> appends exactly two
  entries: the key as given, an equals sign and the value, then the upper-case key, an
  equals sign and the same value. The three proxy keys are lower-case and their
  upper-case forms are the usual variable names.
\<close>

theorem proxy_value_and_append:
  "getProxyValue up env key =
     (if Getenv env key \<noteq> [] then Getenv env key else Getenv env (ToUpper up key))
   \<and> (getProxyValue up env key \<noteq> [] \<and> \<not> hasProxyBuildArg up build key \<longrightarrow>
        Args (addProxyValue up env build key) =
          Args build @ [key @ ''='' @ getProxyValue up env key,
                        ToUpper up key @ ''='' @ getProxyValue up env key])
   \<and> ToUpper up ''http_proxy'' = ''HTTP_PROXY''
   \<and> ToUpper up ''https_proxy'' = ''HTTPS_PROXY''
   \<and> ToUpper up ''no_proxy'' = ''NO_PROXY''"
  by (simp add: getProxyValue_def addProxyValue_eq ToUpper_http ToUpper_https ToUpper_no)

theorem proxy_value_and_append_witness:
  "getProxyValue sampleUpper [''HTTPS_PROXY'' \<mapsto> ''p''] ''https_proxy'' = ''p''
   \<and> Args (addProxyValue sampleUpper [''HTTPS_PROXY'' \<mapsto> ''p''] sampleBuild ''https_proxy'')
       = [''A=1'', ''https_proxy=p'', ''HTTPS_PROXY=p'']"
proof -
  have v: "getProxyValue sampleUpper [''HTTPS_PROXY'' \<mapsto> ''p''] ''https_proxy'' = ''p''" by code_simp
  have n: "\<not> hasProxyBuildArg sampleUpper sampleBuild ''https_proxy''" by code_simp
  have a: "Args sampleBuild = [''A=1'']" by code_simp
  show ?thesis
    using v n a proxy_value_and_append [of sampleUpper "[''HTTPS_PROXY'' \<mapsto> ''p'']" "''https_proxy''" sampleBuild]
    by simp
qed

subsection \<open>Claim C9\<close>

text \<open>
  C9. Proxy-argument injection changes the \<^verbatim>\<open>Args\<close> field only, and only by appending:
  the build after \<^verbatim>\<open>addProxyBuildArgs\<close>, and after the loop over \<^verbatim>\<open>ArgsEnv\<close>, is the
  build before with \<^verbatim>\<open>Args\<close> extended; every other field is the same. In the plugin that
  Exec goes on with, \<^verbatim>\<open>Login\<close>, \<^verbatim>\<open>Dryrun\<close> and \<^verbatim>\<open>Cleanup\<close> are unchanged.
\<close>

theorem proxy_injection_frame:
  "(\<exists>extra. addProxyBuildArgs up env build = build\<lparr>Args := Args build @ extra\<rparr>)
   \<and> (\<exists>extra. argsEnvLoop up env build = build\<lparr>Args := Args build @ extra\<rparr>)
   \<and> Login (p\<lparr>Build := addProxyBuildArgs up env (Build p)\<rparr>) = Login p
   \<and> Dryrun (p\<lparr>Build := addProxyBuildArgs up env (Build p)\<rparr>) = Dryrun p
   \<and> Cleanup (p\<lparr>Build := addProxyBuildArgs up env (Build p)\<rparr>) = Cleanup p"
  using addProxyBuildArgs_frame [of up env build] argsEnvLoop_frame [of up env build] by simp

theorem proxy_injection_frame_witness:
  "addProxyBuildArgs sampleUpper sampleEnv sampleBuild =
     sampleBuild\<lparr>Args := [''A=1'', ''http_proxy=http://proxy:3128'', ''HTTP_PROXY=http://proxy:3128'']\<rparr>"
proof -
  obtain extra where e: "addProxyBuildArgs sampleUpper sampleEnv sampleBuild = sampleBuild\<lparr>Args := Args sampleBuild @ extra\<rparr>"
    using proxy_injection_frame [of sampleUpper sampleEnv sampleBuild] by blast
  have "Args (addProxyBuildArgs sampleUpper sampleEnv sampleBuild) =
     [''A=1'', ''http_proxy=http://proxy:3128'', ''HTTP_PROXY=http://proxy:3128'']"
    by code_simp
  then have "Args sampleBuild @ extra = [''A=1'', ''http_proxy=http://proxy:3128'', ''HTTP_PROXY=http://proxy:3128'']"
    by (simp add: e)
  then show ?thesis by (simp add: e)
qed

section \<open>Facts about the build command\<close>

lemma s3Args_eq:
  "s3Args build args = args @
     [''--s3-local-cache-dir'', S3CacheDir build]
     @ (if S3Bucket build \<noteq> [] then [''--s3-bucket'', S3Bucket build] else [])
     @ (if S3Endpoint build \<noteq> [] then [''--s3-endpoint'', S3Endpoint build] else [])
     @ (if S3Region build \<noteq> [] then [''--s3-region'', S3Region build] else [])
     @ (if S3Key build \<noteq> [] then [''--s3-key'', S3Key build] else [])
     @ (if S3Secret build \<noteq> [] then [''--s3-secret'', S3Secret build] else [])
     @ (if S3UseSSL build then [''--s3-use-ssl=true''] else [])"
  by (simp add: s3Args_def)

lemma autoLabelArgs_eq:
  "autoLabelArgs now build args = args @
     concat (map (\<lambda>label. [''--label'', ''org.opencontainers.image.'' @ label])
       ([''created='' @ now, ''revision='' @ Name build, ''source='' @ Remote build,
         ''url='' @ Link build] @ LabelSchema build))"
  by (simp add: autoLabelArgs_def Let_def foldl_snoc_concat)

lemma if_snoc: "(if c then xs @ ys else xs) = xs @ (if c then ys else [])"
  by simp

lemma if_nonempty_concat:
  "(if 0 < length xs then acc @ concat (map f xs) else acc) = acc @ concat (map f xs)"
  by simp

lemma layers_step:
  "(if Layers build then
      (let args = args @ [''--layers=true'']
       in if S3CacheDir build \<noteq> [] then s3Args build args else args)
    else args)
   = args @ (if Layers build then
               ''--layers=true'' # (if S3CacheDir build \<noteq> [] then s3Args build [] else [])
             else [])"
  by (simp add: s3Args_eq)

lemma autoLabel_step:
  "(if AutoLabel build then autoLabelArgs now build args else args)
   = args @ (if AutoLabel build then
               concat (map (\<lambda>label. [''--label'', ''org.opencontainers.image.'' @ label])
                ([''created='' @ now, ''revision='' @ Name build, ''source='' @ Remote build,
                  ''url='' @ Link build] @ LabelSchema build))
             else [])"
  by (simp add: autoLabelArgs_eq)

lemma commandBuildFrom_eq:
  "commandBuildFrom up env now build args =
     buildahExe # args
     @ (if Squash build then [''--squash''] else [])
     @ (if Compress build then [''--compress''] else [])
     @ (if Pull build then [''--pull=true''] else [])
     @ (if NoCache build then [''--no-cache''] else [])
     @ concat (map (\<lambda>arg. [''--cache-from'', arg]) (CacheFrom build))
     @ concat (map (\<lambda>arg. [''--build-arg'', arg]) (Args (argsEnvLoop up env build)))
     @ concat (map (\<lambda>host. [''--add-host'', host]) (AddHost build))
     @ (if Target build \<noteq> [] then [''--target'', Target build] else [])
     @ (if Quiet build then [''--quiet''] else [])
     @ (if Layers build then
          ''--layers=true'' # (if S3CacheDir build \<noteq> [] then s3Args build [] else [])
        else [])
     @ (if AutoLabel build then
          concat (map (\<lambda>label. [''--label'', ''org.opencontainers.image.'' @ label])
                ([''created='' @ now, ''revision='' @ Name build, ''source='' @ Remote build,
                  ''url='' @ Link build] @ LabelSchema build))
        else [])
     @ concat (map (\<lambda>label. [''--label'', label]) (Labels build))
     @ [''-t'', Name build, Context build]"
proof -
  obtain extra where e: "argsEnvLoop up env build = build\<lparr>Args := Args build @ extra\<rparr>"
    using argsEnvLoop_frame by blast
  define b' where "b' = argsEnvLoop up env build"
  have b': "b' = build\<lparr>Args := Args build @ extra\<rparr>"
    by (simp add: b'_def e)
  have fields: "AddHost b' = AddHost build" "Target b' = Target build" "Quiet b' = Quiet build"
    "Layers b' = Layers build" "S3CacheDir b' = S3CacheDir build" "AutoLabel b' = AutoLabel build"
    "Labels b' = Labels build" "Name b' = Name build" "Context b' = Context build"
    "Remote b' = Remote build" "Link b' = Link build" "LabelSchema b' = LabelSchema build"
    by (simp_all add: b')
  have s3: "\<And>xs. s3Args b' xs = s3Args build xs"
    by (simp add: s3Args_def b' cong: if_cong)
  have al: "\<And>xs. autoLabelArgs now b' xs = autoLabelArgs now build xs"
    by (simp add: autoLabelArgs_def b' cong: if_cong)
  have ne: "\<And>f xs. (if 0 < length xs then concat (map f xs) else []) = concat (map f (xs::string list))"
    by simp
  show ?thesis
    unfolding commandBuildFrom_def
    apply (simp only: if_snoc foldl_snoc_concat layers_step autoLabel_step ne)
    apply (simp only: Let_def)
    apply (fold b'_def)
    apply (simp only: fields s3 al)
    apply (simp only: append_assoc append.simps)
    done
qed

lemma commandBuildFrom_ends:
  "\<exists>mid. commandBuildFrom up env now build args =
           buildahExe # args @ mid @ [''-t'', Name build, Context build]"
proof -
  have pre: "\<And>r t. \<exists>mid. r = mid @ t \<Longrightarrow> \<exists>mid. buildahExe # args @ r = buildahExe # args @ mid @ (t::string list)"
    by auto
  have step: "\<And>r m t. \<exists>mid. r = mid @ t \<Longrightarrow> \<exists>mid. m @ r = mid @ (t::string list)"
    by (metis append_assoc)
  have base: "\<And>t. \<exists>mid. t = mid @ (t::string list)"
    by simp
  show ?thesis
    unfolding commandBuildFrom_eq
    by (rule pre) (intro step, rule base)
qed

lemma commandBuild_explicit:
  "commandBuild up env now build =
     [buildahExe, ''--storage-driver'', ''vfs'', ''bud'', ''-f'', Dockerfile build]
     @ (if Squash build then [''--squash''] else [])
     @ (if Compress build then [''--compress''] else [])
     @ (if Pull build then [''--pull=true''] else [])
     @ (if NoCache build then [''--no-cache''] else [])
     @ concat (map (\<lambda>arg. [''--cache-from'', arg]) (CacheFrom build))
     @ concat (map (\<lambda>arg. [''--build-arg'', arg]) (Args (argsEnvLoop up env build)))
     @ concat (map (\<lambda>host. [''--add-host'', host]) (AddHost build))
     @ (if Target build \<noteq> [] then [''--target'', Target build] else [])
     @ (if Quiet build then [''--quiet''] else [])
     @ (if Layers build then
          ''--layers=true'' #
          (if S3CacheDir build \<noteq> [] then
             [''--s3-local-cache-dir'', S3CacheDir build]
             @ (if S3Bucket build \<noteq> [] then [''--s3-bucket'', S3Bucket build] else [])
             @ (if S3Endpoint build \<noteq> [] then [''--s3-endpoint'', S3Endpoint build] else [])
             @ (if S3Region build \<noteq> [] then [''--s3-region'', S3Region build] else [])
             @ (if S3Key build \<noteq> [] then [''--s3-key'', S3Key build] else [])
             @ (if S3Secret build \<noteq> [] then [''--s3-secret'', S3Secret build] else [])
             @ (if S3UseSSL build then [''--s3-use-ssl=true''] else [])
           else [])
        else [])
     @ (if AutoLabel build then
          concat (map (\<lambda>label. [''--label'', ''org.opencontainers.image.'' @ label])
            ([''created='' @ now, ''revision='' @ Name build, ''source='' @ Remote build,
              ''url='' @ Link build] @ LabelSchema build))
        else [])
     @ concat (map (\<lambda>label. [''--label'', label]) (Labels build))
     @ [''-t'', Name build, Context build]
 \<and> commandBuild_v up env now build =
     [buildahExe, ''bud'', ''--format'', ''docker'', ''-f'', Dockerfile build]
     @ (if Squash build then [''--squash''] else [])
     @ (if Compress build then [''--compress''] else [])
     @ (if Pull build then [''--pull=true''] else [])
     @ (if NoCache build then [''--no-cache''] else [])
     @ concat (map (\<lambda>arg. [''--cache-from'', arg]) (CacheFrom build))
     @ concat (map (\<lambda>arg. [''--build-arg'', arg]) (Args (argsEnvLoop up env build)))
     @ concat (map (\<lambda>host. [''--add-host'', host]) (AddHost build))
     @ (if Target build \<noteq> [] then [''--target'', Target build] else [])
     @ (if Quiet build then [''--quiet''] else [])
     @ (if Layers build then
          ''--layers=true'' #
          (if S3CacheDir build \<noteq> [] then
             [''--s3-local-cache-dir'', S3CacheDir build]
             @ (if S3Bucket build \<noteq> [] then [''--s3-bucket'', S3Bucket build] else [])
             @ (if S3Endpoint build \<noteq> [] then [''--s3-endpoint'', S3Endpoint build] else [])
             @ (if S3Region build \<noteq> [] then [''--s3-region'', S3Region build] else [])
             @ (if S3Key build \<noteq> [] then [''--s3-key'', S3Key build] else [])
             @ (if S3Secret build \<noteq> [] then [''--s3-secret'', S3Secret build] else [])
             @ (if S3UseSSL build then [''--s3-use-ssl=true''] else [])
           else [])
        else [])
     @ (if AutoLabel build then
          concat (map (\<lambda>label. [''--label'', ''org.opencontainers.image.'' @ label])
            ([''created='' @ now, ''revision='' @ Name build, ''source='' @ Remote build,
              ''url='' @ Link build] @ LabelSchema build))
        else [])
     @ concat (map (\<lambda>label. [''--label'', label]) (Labels build))
     @ [''-t'', Name build, Context build]"
  by (simp add: commandBuild_def commandBuild_v_def commandBuildFrom_eq s3Args_eq
      split del: if_split cong: if_cong)


section \<open>The claims about the build command\<close>

subsection \<open>Claim C2\<close>

text \<open>
  C2 says that for every build the Dockerfile flag comes immediately after the build
  subcommand token. In the second file the token after \<^verbatim>\<open>bud\<close> is \<^verbatim>\<open>--format\<close>.
\<close>

theorem commandBuild_v_format_counterexample:
  "commandBuild_v sampleUpper sampleEnv ''T'' sampleBuild ! 1 = ''bud''
   \<and> commandBuild_v sampleUpper sampleEnv ''T'' sampleBuild ! 2 = ''--format''
   \<and> commandBuild_v sampleUpper sampleEnv ''T'' sampleBuild ! 2 \<noteq> ''-f''"
  by code_simp

text \<open>
  C2 as amended. In docker.go the argument vector starts with the executable, the
  storage-driver flag and its value, \<^verbatim>\<open>bud\<close>, \<^verbatim>\<open>-f\<close> and the Dockerfile path, so the
  Dockerfile flag comes immediately after the subcommand. In the second file it starts
  with the executable, \<^verbatim>\<open>bud\<close>, \<^verbatim>\<open>--format docker\<close>, \<^verbatim>\<open>-f\<close> and the Dockerfile path. In
  both the context path is the last token.
\<close>

theorem commandBuild_dockerfile_and_context:
  "take 6 (commandBuild up env now build) =
     [buildahExe, ''--storage-driver'', ''vfs'', ''bud'', ''-f'', Dockerfile build]
   \<and> last (commandBuild up env now build) = Context build
   \<and> take 6 (commandBuild_v up env now build) =
     [buildahExe, ''bud'', ''--format'', ''docker'', ''-f'', Dockerfile build]
   \<and> last (commandBuild_v up env now build) = Context build"
proof -
  obtain m1 where m1: "commandBuild up env now build =
      buildahExe # [''--storage-driver'', ''vfs'', ''bud'', ''-f'', Dockerfile build] @ m1
        @ [''-t'', Name build, Context build]"
    unfolding commandBuild_def using commandBuildFrom_ends by blast
  obtain m2 where m2: "commandBuild_v up env now build =
      buildahExe # [''bud'', ''--format'', ''docker'', ''-f'', Dockerfile build] @ m2
        @ [''-t'', Name build, Context build]"
    unfolding commandBuild_v_def using commandBuildFrom_ends by blast
  show ?thesis
    by (simp add: m1 m2)
qed

theorem commandBuild_dockerfile_and_context_witness:
  "take 6 (commandBuild sampleUpper sampleEnv ''T'' sampleBuild) =
     [''buildah'', ''--storage-driver'', ''vfs'', ''bud'', ''-f'', ''Dockerfile'']
   \<and> last (commandBuild_v sampleUpper sampleEnv ''T'' sampleBuild) = ''.''"
proof -
  have "Dockerfile sampleBuild = ''Dockerfile''" "Context sampleBuild = ''.''"
    by (simp_all add: sampleBuild_def)
  then show ?thesis
    using commandBuild_dockerfile_and_context [of sampleUpper sampleEnv "''T''" sampleBuild]
    by (simp add: buildahExe_def)
qed

subsection \<open>Claim C5\<close>

text \<open>
  C5. The argument vector of the build command, written out in full for both files. After
  the fixed prefix, the flags, the cache, build-argument and host entries, the target,
  the quiet flag and the layer-cache block come, when \<^verbatim>\<open>AutoLabel\<close> is set, exactly one
  \<^verbatim>\<open>--label\<close> flag for each of the four generated labels (created, revision, source, url)
  and for each \<^verbatim>\<open>LabelSchema\<close> entry, in this order, the value prefixed with
  \<^verbatim>\<open>org.opencontainers.image.\<close>; then one \<^verbatim>\<open>--label\<close> flag for each \<^verbatim>\<open>Labels\<close> entry, the
  value as it is; then the name flag and the context. No other token of the vector is a
  label flag of the command.
\<close>

theorem commandBuild_labels:
  "commandBuild up env now build =
     [buildahExe, ''--storage-driver'', ''vfs'', ''bud'', ''-f'', Dockerfile build]
     @ (if Squash build then [''--squash''] else [])
     @ (if Compress build then [''--compress''] else [])
     @ (if Pull build then [''--pull=true''] else [])
     @ (if NoCache build then [''--no-cache''] else [])
     @ concat (map (\<lambda>arg. [''--cache-from'', arg]) (CacheFrom build))
     @ concat (map (\<lambda>arg. [''--build-arg'', arg]) (Args (argsEnvLoop up env build)))
     @ concat (map (\<lambda>host. [''--add-host'', host]) (AddHost build))
     @ (if Target build \<noteq> [] then [''--target'', Target build] else [])
     @ (if Quiet build then [''--quiet''] else [])
     @ (if Layers build then
          ''--layers=true'' #
          (if S3CacheDir build \<noteq> [] then
             [''--s3-local-cache-dir'', S3CacheDir build]
             @ (if S3Bucket build \<noteq> [] then [''--s3-bucket'', S3Bucket build] else [])
             @ (if S3Endpoint build \<noteq> [] then [''--s3-endpoint'', S3Endpoint build] else [])
             @ (if S3Region build \<noteq> [] then [''--s3-region'', S3Region build] else [])
             @ (if S3Key build \<noteq> [] then [''--s3-key'', S3Key build] else [])
             @ (if S3Secret build \<noteq> [] then [''--s3-secret'', S3Secret build] else [])
             @ (if S3UseSSL build then [''--s3-use-ssl=true''] else [])
           else [])
        else [])
     @ (if AutoLabel build then
          concat (map (\<lambda>label. [''--label'', ''org.opencontainers.image.'' @ label])
            ([''created='' @ now, ''revision='' @ Name build, ''source='' @ Remote build,
              ''url='' @ Link build] @ LabelSchema build))
        else [])
     @ concat (map (\<lambda>label. [''--label'', label]) (Labels build))
     @ [''-t'', Name build, Context build]
 \<and> commandBuild_v up env now build =
     [buildahExe, ''bud'', ''--format'', ''docker'', ''-f'', Dockerfile build]
     @ (if Squash build then [''--squash''] else [])
     @ (if Compress build then [''--compress''] else [])
     @ (if Pull build then [''--pull=true''] else [])
     @ (if NoCache build then [''--no-cache''] else [])
     @ concat (map (\<lambda>arg. [''--cache-from'', arg]) (CacheFrom build))
     @ concat (map (\<lambda>arg. [''--build-arg'', arg]) (Args (argsEnvLoop up env build)))
     @ concat (map (\<lambda>host. [''--add-host'', host]) (AddHost build))
     @ (if Target build \<noteq> [] then [''--target'', Target build] else [])
     @ (if Quiet build then [''--quiet''] else [])
     @ (if Layers build then
          ''--layers=true'' #
          (if S3CacheDir build \<noteq> [] then
             [''--s3-local-cache-dir'', S3CacheDir build]
             @ (if S3Bucket build \<noteq> [] then [''--s3-bucket'', S3Bucket build] else [])
             @ (if S3Endpoint build \<noteq> [] then [''--s3-endpoint'', S3Endpoint build] else [])
             @ (if S3Region build \<noteq> [] then [''--s3-region'', S3Region build] else [])
             @ (if S3Key build \<noteq> [] then [''--s3-key'', S3Key build] else [])
             @ (if S3Secret build \<noteq> [] then [''--s3-secret'', S3Secret build] else [])
             @ (if S3UseSSL build then [''--s3-use-ssl=true''] else [])
           else [])
        else [])
     @ (if AutoLabel build then
          concat (map (\<lambda>label. [''--label'', ''org.opencontainers.image.'' @ label])
            ([''created='' @ now, ''revision='' @ Name build, ''source='' @ Remote build,
              ''url='' @ Link build] @ LabelSchema build))
        else [])
     @ concat (map (\<lambda>label. [''--label'', label]) (Labels build))
     @ [''-t'', Name build, Context build]"
  by (rule commandBuild_explicit)

theorem commandBuild_labels_witness:
  "commandBuild sampleUpper sampleEnv ''T'' sampleBuild =
     [''buildah'', ''--storage-driver'', ''vfs'', ''bud'', ''-f'', ''Dockerfile'', ''--pull=true'',
      ''--cache-from'', ''a'', ''--cache-from'', ''b'',
      ''--build-arg'', ''A=1'', ''--build-arg'', ''foo=2'', ''--build-arg'', ''FOO=2'',
      ''--add-host'', ''h:10.0.0.1'',
      ''--label'', ''org.opencontainers.image.created=T'',
      ''--label'', ''org.opencontainers.image.revision=abc123'',
      ''--label'', ''org.opencontainers.image.source=https://git.example/r.git'',
      ''--label'', ''org.opencontainers.image.url=https://git.example/r'',
      ''--label'', ''org.opencontainers.image.version=1'',
      ''--label'', ''team=x'', ''-t'', ''abc123'', ''.'']
   \<and> commandBuild_v sampleUpper sampleEnv ''T'' sampleBuild =
     [''buildah'', ''bud'', ''--format'', ''docker'', ''-f'', ''Dockerfile'', ''--pull=true'',
      ''--cache-from'', ''a'', ''--cache-from'', ''b'',
      ''--build-arg'', ''A=1'', ''--build-arg'', ''foo=2'', ''--build-arg'', ''FOO=2'',
      ''--add-host'', ''h:10.0.0.1'',
      ''--label'', ''org.opencontainers.image.created=T'',
      ''--label'', ''org.opencontainers.image.revision=abc123'',
      ''--label'', ''org.opencontainers.image.source=https://git.example/r.git'',
      ''--label'', ''org.opencontainers.image.url=https://git.example/r'',
      ''--label'', ''org.opencontainers.image.version=1'',
      ''--label'', ''team=x'', ''-t'', ''abc123'', ''.'']"
proof -
  have f: "Dockerfile sampleBuild = ''Dockerfile''" "Squash sampleBuild = False" "Compress sampleBuild = False" "Pull sampleBuild = True"
    "NoCache sampleBuild = False" "CacheFrom sampleBuild = [''a'', ''b'']" "AddHost sampleBuild = [''h:10.0.0.1'']" "Target sampleBuild = []"
    "Quiet sampleBuild = False" "Layers sampleBuild = False" "AutoLabel sampleBuild = True" "Name sampleBuild = ''abc123''"
    "Remote sampleBuild = ''https://git.example/r.git''" "Link sampleBuild = ''https://git.example/r''"
    "LabelSchema sampleBuild = [''version=1'']" "Labels sampleBuild = [''team=x'']" "Context sampleBuild = ''.''"
    by (simp_all add: sampleBuild_def)
  have a: "Args (argsEnvLoop sampleUpper sampleEnv sampleBuild) = [''A=1'', ''foo=2'', ''FOO=2'']"
    by code_simp
  show ?thesis
    using commandBuild_labels [of sampleUpper sampleEnv "''T''" sampleBuild]
    by (simp add: f a buildahExe_def)
qed

subsection \<open>Claim C6\<close>

text \<open>
  C6 says that the environment-derived build arguments come before the explicitly supplied
  ones. The loop over \<^verbatim>\<open>ArgsEnv\<close> appends to \<^verbatim>\<open>build.Args\<close>, so they come after: with
  \<^verbatim>\<open>Args = [A=1]\<close>, \<^verbatim>\<open>ArgsEnv = [foo]\<close> and \<^verbatim>\<open>foo=2\<close> in the environment the flags are
  \<^verbatim>\<open>A=1\<close>, \<^verbatim>\<open>foo=2\<close>, \<^verbatim>\<open>FOO=2\<close>, in both files.
\<close>

theorem commandBuild_build_arg_order_counterexample:
  "Args sampleBuild = [''A=1''] \<and> ArgsEnv sampleBuild = [''foo'']
   \<and> getProxyValue sampleUpper sampleEnv ''foo'' = ''2''
   \<and> take 6 (drop 11 (commandBuild sampleUpper sampleEnv ''T'' sampleBuild)) =
       [''--build-arg'', ''A=1'', ''--build-arg'', ''foo=2'', ''--build-arg'', ''FOO=2'']
   \<and> take 6 (drop 11 (commandBuild_v sampleUpper sampleEnv ''T'' sampleBuild)) =
       [''--build-arg'', ''A=1'', ''--build-arg'', ''foo=2'', ''--build-arg'', ''FOO=2'']"
  by code_simp

text \<open>
  C6 as amended. The build arguments after the loop over \<^verbatim>\<open>ArgsEnv\<close> are the explicitly
  supplied \<^verbatim>\<open>Args\<close>, in their order, followed by the environment-derived ones as
  \<open>spec_envArgs\<close> lists them: for each \<^verbatim>\<open>ArgsEnv\<close> name in order, when its value is not
  empty and no argument before it (explicit or derived) starts with the name or its
  upper-case form, the name with the value and then the upper-case name with the value.
  In the argument vector, written out in full for both files, there is one
  \<^verbatim>\<open>--cache-from\<close> per cache entry in list order, then one \<^verbatim>\<open>--build-arg\<close> per build
  argument in that order, then one \<^verbatim>\<open>--add-host\<close> per host entry in list order.
\<close>

theorem commandBuild_repeated_flags:
  "Args (argsEnvLoop up env build) = Args build @ spec_envArgs up env (Args build) (ArgsEnv build)
   \<and> commandBuild up env now build =
     [buildahExe, ''--storage-driver'', ''vfs'', ''bud'', ''-f'', Dockerfile build]
     @ (if Squash build then [''--squash''] else [])
     @ (if Compress build then [''--compress''] else [])
     @ (if Pull build then [''--pull=true''] else [])
     @ (if NoCache build then [''--no-cache''] else [])
     @ concat (map (\<lambda>arg. [''--cache-from'', arg]) (CacheFrom build))
     @ concat (map (\<lambda>arg. [''--build-arg'', arg]) (Args build @ spec_envArgs up env (Args build) (ArgsEnv build)))
     @ concat (map (\<lambda>host. [''--add-host'', host]) (AddHost build))
     @ (if Target build \<noteq> [] then [''--target'', Target build] else [])
     @ (if Quiet build then [''--quiet''] else [])
     @ (if Layers build then
          ''--layers=true'' #
          (if S3CacheDir build \<noteq> [] then
             [''--s3-local-cache-dir'', S3CacheDir build]
             @ (if S3Bucket build \<noteq> [] then [''--s3-bucket'', S3Bucket build] else [])
             @ (if S3Endpoint build \<noteq> [] then [''--s3-endpoint'', S3Endpoint build] else [])
             @ (if S3Region build \<noteq> [] then [''--s3-region'', S3Region build] else [])
             @ (if S3Key build \<noteq> [] then [''--s3-key'', S3Key build] else [])
             @ (if S3Secret build \<noteq> [] then [''--s3-secret'', S3Secret build] else [])
             @ (if S3UseSSL build then [''--s3-use-ssl=true''] else [])
           else [])
        else [])
     @ (if AutoLabel build then
          concat (map (\<lambda>label. [''--label'', ''org.opencontainers.image.'' @ label])
            ([''created='' @ now, ''revision='' @ Name build, ''source='' @ Remote build,
              ''url='' @ Link build] @ LabelSchema build))
        else [])
     @ concat (map (\<lambda>label. [''--label'', label]) (Labels build))
     @ [''-t'', Name build, Context build]
 \<and> commandBuild_v up env now build =
     [buildahExe, ''bud'', ''--format'', ''docker'', ''-f'', Dockerfile build]
     @ (if Squash build then [''--squash''] else [])
     @ (if Compress build then [''--compress''] else [])
     @ (if Pull build then [''--pull=true''] else [])
     @ (if NoCache build then [''--no-cache''] else [])
     @ concat (map (\<lambda>arg. [''--cache-from'', arg]) (CacheFrom build))
     @ concat (map (\<lambda>arg. [''--build-arg'', arg]) (Args build @ spec_envArgs up env (Args build) (ArgsEnv build)))
     @ concat (map (\<lambda>host. [''--add-host'', host]) (AddHost build))
     @ (if Target build \<noteq> [] then [''--target'', Target build] else [])
     @ (if Quiet build then [''--quiet''] else [])
     @ (if Layers build then
          ''--layers=true'' #
          (if S3CacheDir build \<noteq> [] then
             [''--s3-local-cache-dir'', S3CacheDir build]
             @ (if S3Bucket build \<noteq> [] then [''--s3-bucket'', S3Bucket build] else [])
             @ (if S3Endpoint build \<noteq> [] then [''--s3-endpoint'', S3Endpoint build] else [])
             @ (if S3Region build \<noteq> [] then [''--s3-region'', S3Region build] else [])
             @ (if S3Key build \<noteq> [] then [''--s3-key'', S3Key build] else [])
             @ (if S3Secret build \<noteq> [] then [''--s3-secret'', S3Secret build] else [])
             @ (if S3UseSSL build then [''--s3-use-ssl=true''] else [])
           else [])
        else [])
     @ (if AutoLabel build then
          concat (map (\<lambda>label. [''--label'', ''org.opencontainers.image.'' @ label])
            ([''created='' @ now, ''revision='' @ Name build, ''source='' @ Remote build,
              ''url='' @ Link build] @ LabelSchema build))
        else [])
     @ concat (map (\<lambda>label. [''--label'', label]) (Labels build))
     @ [''-t'', Name build, Context build]"
  using commandBuild_explicit [of up env now build]
  by (simp only: argsEnvLoop_spec simp_thms)

theorem commandBuild_repeated_flags_witness:
  "Args (argsEnvLoop sampleUpper envEnv envBuild) =
     [''A=1'', ''foo=2'', ''FOO=2'', [CHR 0xC3, CHR 0xA9] @ ''=1'', [CHR 0xC3, CHR 0x89] @ ''=1'']
   \<and> commandBuild sampleUpper envEnv ''T'' envBuild =
     [''buildah'', ''--storage-driver'', ''vfs'', ''bud'', ''-f'', ''Dockerfile'', ''--pull=true'',
      ''--cache-from'', ''a'', ''--cache-from'', ''b'',
      ''--build-arg'', ''A=1'', ''--build-arg'', ''foo=2'', ''--build-arg'', ''FOO=2'',
      ''--build-arg'', [CHR 0xC3, CHR 0xA9] @ ''=1'', ''--build-arg'', [CHR 0xC3, CHR 0x89] @ ''=1'',
      ''--add-host'', ''h:10.0.0.1'',
      ''--label'', ''org.opencontainers.image.created=T'',
      ''--label'', ''org.opencontainers.image.revision=abc123'',
      ''--label'', ''org.opencontainers.image.source=https://git.example/r.git'',
      ''--label'', ''org.opencontainers.image.url=https://git.example/r'',
      ''--label'', ''org.opencontainers.image.version=1'',
      ''--label'', ''team=x'', ''-t'', ''abc123'', ''.'']
   \<and> commandBuild_v sampleUpper envEnv ''T'' envBuild =
     [''buildah'', ''bud'', ''--format'', ''docker'', ''-f'', ''Dockerfile'', ''--pull=true'',
      ''--cache-from'', ''a'', ''--cache-from'', ''b'',
      ''--build-arg'', ''A=1'', ''--build-arg'', ''foo=2'', ''--build-arg'', ''FOO=2'',
      ''--build-arg'', [CHR 0xC3, CHR 0xA9] @ ''=1'', ''--build-arg'', [CHR 0xC3, CHR 0x89] @ ''=1'',
      ''--add-host'', ''h:10.0.0.1'',
      ''--label'', ''org.opencontainers.image.created=T'',
      ''--label'', ''org.opencontainers.image.revision=abc123'',
      ''--label'', ''org.opencontainers.image.source=https://git.example/r.git'',
      ''--label'', ''org.opencontainers.image.url=https://git.example/r'',
      ''--label'', ''org.opencontainers.image.version=1'',
      ''--label'', ''team=x'', ''-t'', ''abc123'', ''.'']"
proof -
  have f: "Dockerfile envBuild = ''Dockerfile''" "Squash envBuild = False" "Compress envBuild = False" "Pull envBuild = True"
    "NoCache envBuild = False" "CacheFrom envBuild = [''a'', ''b'']" "AddHost envBuild = [''h:10.0.0.1'']" "Target envBuild = []"
    "Quiet envBuild = False" "Layers envBuild = False" "AutoLabel envBuild = True" "Name envBuild = ''abc123''"
    "Remote envBuild = ''https://git.example/r.git''" "Link envBuild = ''https://git.example/r''"
    "LabelSchema envBuild = [''version=1'']" "Labels envBuild = [''team=x'']" "Context envBuild = ''.''"
    by (simp_all add: envBuild_def sampleBuild_def)
  have g: "Args envBuild = [''A=1'']"
    "ArgsEnv envBuild = [''foo'', ''bar'', ''foo'', [CHR 0xC3, CHR 0xA9]]"
    by (simp_all add: envBuild_def sampleBuild_def)
  have a: "spec_envArgs sampleUpper envEnv [''A=1''] [''foo'', ''bar'', ''foo'', [CHR 0xC3, CHR 0xA9]] =
      [''foo=2'', ''FOO=2'', [CHR 0xC3, CHR 0xA9] @ ''=1'', [CHR 0xC3, CHR 0x89] @ ''=1'']"
    by code_simp
  show ?thesis
    using commandBuild_repeated_flags [of sampleUpper envEnv envBuild "''T''"]
    unfolding g a
    by (simp add: f buildahExe_def)
qed

section \<open>Facts about the command list\<close>

lemma tag_push_fold:
  "foldl (\<lambda>cmds tag. (let cmds = cmds @ [G tag] in if \<not> d then cmds @ [P tag] else cmds)) acc tags
     = acc @ concat (map (\<lambda>tag. G tag # (if d then [] else [P tag])) tags)"
  by (induction tags arbitrary: acc) (simp_all add: Let_def)

lemma snoc_fold_map: "foldl (\<lambda>cmds x. cmds @ [f x]) acc xs = acc @ map f xs"
  by (induction xs arbitrary: acc) simp_all

lemma ExecCmds_eq:
  "ExecCmds up env now p =
     [commandVersion, commandInfo] @ map commandPull (CacheFrom (Build p))
     @ [commandBuild up env now (Build p)]
     @ concat (map (\<lambda>tag. commandTag (Build p) tag #
                          (if Dryrun p then [] else [commandPush (Build p) tag])) (Tags (Build p)))
     @ (if Cleanup p then [commandRmi (Name (Build p))] else [])"
  unfolding ExecCmds_def
  by (simp only: tag_push_fold snoc_fold_map) (simp add: Let_def)

lemma ExecCmds_v_eq:
  "ExecCmds_v up env now p =
     [commandVersion_v, commandInfo_v] @ map commandPull_v (CacheFrom (Build p))
     @ [commandBuild_v up env now (Build p)]
     @ concat (map (\<lambda>tag. commandTag_v (Build p) tag #
                          (if Dryrun p then [] else [commandPush_v (Build p) tag])) (Tags (Build p)))
     @ (if Cleanup p then [commandRmi_v (Name (Build p))] else [])"
  unfolding ExecCmds_v_def
  by (simp only: tag_push_fold snoc_fold_map) (simp add: Let_def)

lemma addProxyBuildArgs_fields:
  "CacheFrom (addProxyBuildArgs up env build) = CacheFrom build"
  "Tags (addProxyBuildArgs up env build) = Tags build"
  "Name (addProxyBuildArgs up env build) = Name build"
  "Repo (addProxyBuildArgs up env build) = Repo build"
proof -
  obtain extra where e: "addProxyBuildArgs up env build = build\<lparr>Args := Args build @ extra\<rparr>"
    using addProxyBuildArgs_frame by blast
  show "CacheFrom (addProxyBuildArgs up env build) = CacheFrom build"
    "Tags (addProxyBuildArgs up env build) = Tags build"
    "Name (addProxyBuildArgs up env build) = Name build"
    "Repo (addProxyBuildArgs up env build) = Repo build"
    by (simp_all add: e)
qed

lemma push_after_tag_snoc:
  assumes "\<forall>i<length L. isP (L ! i) \<longrightarrow> 0 < i \<and> (\<exists>t\<in>T. L ! i = P t \<and> L ! (i - 1) = G t)"
    and "\<not> isP c"
  shows "\<forall>i<length (L @ [c]). isP ((L @ [c]) ! i) \<longrightarrow>
           0 < i \<and> (\<exists>t\<in>T. (L @ [c]) ! i = P t \<and> (L @ [c]) ! (i - 1) = G t)"
proof (intro allI impI)
  fix i assume i: "i < length (L @ [c])" and p: "isP ((L @ [c]) ! i)"
  show "0 < i \<and> (\<exists>t\<in>T. (L @ [c]) ! i = P t \<and> (L @ [c]) ! (i - 1) = G t)"
  proof (cases "i < length L")
    case True
    then have "isP (L ! i)" using p by (simp add: nth_append)
    then have "0 < i \<and> (\<exists>t\<in>T. L ! i = P t \<and> L ! (i - 1) = G t)"
      using assms(1) True by blast
    moreover have "i - 1 < length L" using True by arith
    then have "(L @ [c]) ! i = L ! i" "(L @ [c]) ! (i - 1) = L ! (i - 1)"
      using True by (simp_all add: nth_append)
    ultimately show ?thesis by simp
  next
    case False
    then have "i = length L" using i by simp
    then have "(L @ [c]) ! i = c" by simp
    then show ?thesis using p assms(2) by simp
  qed
qed

lemma push_after_tag_snoc2:
  assumes "\<forall>i<length L. isP (L ! i) \<longrightarrow> 0 < i \<and> (\<exists>t\<in>T. L ! i = P t \<and> L ! (i - 1) = G t)"
    and "\<not> isP (G t)" and "t \<in> T"
  shows "\<forall>i<length (L @ [G t, P t]). isP ((L @ [G t, P t]) ! i) \<longrightarrow>
           0 < i \<and> (\<exists>t'\<in>T. (L @ [G t, P t]) ! i = P t' \<and> (L @ [G t, P t]) ! (i - 1) = G t')"
proof (intro allI impI)
  fix i assume i: "i < length (L @ [G t, P t])" and p: "isP ((L @ [G t, P t]) ! i)"
  consider "i < length L" | "i = length L" | "i = Suc (length L)"
    using i by (auto simp: less_Suc_eq)
  then show "0 < i \<and> (\<exists>t'\<in>T. (L @ [G t, P t]) ! i = P t' \<and> (L @ [G t, P t]) ! (i - 1) = G t')"
  proof cases
    case 1
    then have "isP (L ! i)" using p by (simp add: nth_append)
    then have "0 < i \<and> (\<exists>t\<in>T. L ! i = P t \<and> L ! (i - 1) = G t)"
      using assms(1) 1 by blast
    moreover have "i - 1 < length L" using 1 by arith
    then have "(L @ [G t, P t]) ! i = L ! i" "(L @ [G t, P t]) ! (i - 1) = L ! (i - 1)"
      using 1 by (simp_all add: nth_append)
    ultimately show ?thesis by simp
  next
    case 2
    then have "(L @ [G t, P t]) ! i = G t" by (simp add: nth_append)
    then show ?thesis using p assms(2) by simp
  next
    case 3
    then have "(L @ [G t, P t]) ! i = P t" "(L @ [G t, P t]) ! (i - 1) = G t"
      by (simp_all add: nth_append)
    then show ?thesis using 3 assms(3) by auto
  qed
qed

lemma push_after_tag_pulls:
  assumes "\<forall>i<length L. isP (L ! i) \<longrightarrow> 0 < i \<and> (\<exists>t\<in>T. L ! i = P t \<and> L ! (i - 1) = G t)"
    and "\<And>x. \<not> isP (f x)"
  shows "\<forall>i<length (L @ map f xs). isP ((L @ map f xs) ! i) \<longrightarrow>
           0 < i \<and> (\<exists>t\<in>T. (L @ map f xs) ! i = P t \<and> (L @ map f xs) ! (i - 1) = G t)"
  using assms(1)
proof (induction xs arbitrary: L)
  case Nil
  then show ?case by simp
next
  case (Cons x xs)
  have "\<forall>i<length (L @ [f x]). isP ((L @ [f x]) ! i) \<longrightarrow>
           0 < i \<and> (\<exists>t\<in>T. (L @ [f x]) ! i = P t \<and> (L @ [f x]) ! (i - 1) = G t)"
    using Cons.prems assms(2) by (rule push_after_tag_snoc)
  then have "\<forall>i<length ((L @ [f x]) @ map f xs). isP (((L @ [f x]) @ map f xs) ! i) \<longrightarrow>
           0 < i \<and> (\<exists>t\<in>T. ((L @ [f x]) @ map f xs) ! i = P t \<and> ((L @ [f x]) @ map f xs) ! (i - 1) = G t)"
    by (rule Cons.IH)
  then show ?case by simp
qed

lemma push_after_tag_tags:
  assumes "\<forall>i<length L. isP (L ! i) \<longrightarrow> 0 < i \<and> (\<exists>t\<in>T. L ! i = P t \<and> L ! (i - 1) = G t)"
    and "\<And>t. \<not> isP (G t)" and "set ts \<subseteq> T"
  shows "\<forall>i<length (L @ concat (map (\<lambda>t. G t # (if d then [] else [P t])) ts)).
           isP ((L @ concat (map (\<lambda>t. G t # (if d then [] else [P t])) ts)) ! i) \<longrightarrow>
           0 < i \<and> (\<exists>t\<in>T. (L @ concat (map (\<lambda>t. G t # (if d then [] else [P t])) ts)) ! i = P t
                          \<and> (L @ concat (map (\<lambda>t. G t # (if d then [] else [P t])) ts)) ! (i - 1) = G t)"
  using assms(1,3)
proof (induction ts arbitrary: L)
  case Nil
  then show ?case by simp
next
  case (Cons t ts)
  let ?step = "G t # (if d then [] else [P t])"
  have t: "t \<in> T" and ts: "set ts \<subseteq> T" using Cons.prems(2) by simp_all
  have "\<forall>i<length (L @ ?step). isP ((L @ ?step) ! i) \<longrightarrow>
           0 < i \<and> (\<exists>t\<in>T. (L @ ?step) ! i = P t \<and> (L @ ?step) ! (i - 1) = G t)"
  proof (cases d)
    case True
    then show ?thesis
      using push_after_tag_snoc [OF Cons.prems(1) assms(2) [of t]] by simp
  next
    case False
    then show ?thesis
      using push_after_tag_snoc2 [OF Cons.prems(1) assms(2) [of t] t] by simp
  qed
  then have "\<forall>i<length ((L @ ?step) @ concat (map (\<lambda>t. G t # (if d then [] else [P t])) ts)).
           isP (((L @ ?step) @ concat (map (\<lambda>t. G t # (if d then [] else [P t])) ts)) ! i) \<longrightarrow>
           0 < i \<and> (\<exists>t\<in>T. ((L @ ?step) @ concat (map (\<lambda>t. G t # (if d then [] else [P t])) ts)) ! i = P t
                          \<and> ((L @ ?step) @ concat (map (\<lambda>t. G t # (if d then [] else [P t])) ts)) ! (i - 1) = G t)"
    using ts by (rule Cons.IH)
  then show ?case by simp
qed

lemma push_after_tag_list:
  assumes "\<not> isP v" "\<not> isP n" "\<And>x. \<not> isP (f x)" "\<not> isP b" "\<And>t. \<not> isP (G t)" "\<not> isP r"
    and "cmds = [v, n] @ map f xs @ [b] @ concat (map (\<lambda>t. G t # (if d then [] else [P t])) ts)
                 @ (if c then [r] else [])"
  shows "\<forall>i<length cmds. isP (cmds ! i) \<longrightarrow>
           0 < i \<and> (\<exists>t\<in>set ts. cmds ! i = P t \<and> cmds ! (i - 1) = G t)"
proof -
  let ?Q = "\<lambda>L. \<forall>i<length L. isP (L ! i) \<longrightarrow> 0 < i \<and> (\<exists>t\<in>set ts. L ! i = P t \<and> L ! (i - 1) = G t)"
  have "?Q []" by simp
  then have "?Q ([] @ [v])" using assms(1) by (rule push_after_tag_snoc)
  then have "?Q (([] @ [v]) @ [n])" using assms(2) by (rule push_after_tag_snoc)
  then have "?Q ((([] @ [v]) @ [n]) @ map f xs)" using assms(3) by (rule push_after_tag_pulls)
  then have "?Q (((([] @ [v]) @ [n]) @ map f xs) @ [b])" using assms(4) by (rule push_after_tag_snoc)
  then have q: "?Q ((((([] @ [v]) @ [n]) @ map f xs) @ [b]) @ concat (map (\<lambda>t. G t # (if d then [] else [P t])) ts))"
    using assms(5) by (rule push_after_tag_tags) simp
  have "?Q (((((([] @ [v]) @ [n]) @ map f xs) @ [b]) @ concat (map (\<lambda>t. G t # (if d then [] else [P t])) ts))
            @ (if c then [r] else []))"
  proof (cases c)
    case True
    then show ?thesis using push_after_tag_snoc [OF q assms(6)] by simp
  next
    case False
    then show ?thesis using q by simp
  qed
  then show ?thesis by (simp add: assms(7))
qed

lemma commandBuild_subcommand:
  "commandBuild up env now build ! 3 = ''bud''" "commandBuild_v up env now build ! Suc 0 = ''bud''"
proof -
  obtain m1 where m1: "commandBuild up env now build =
      buildahExe # [''--storage-driver'', ''vfs'', ''bud'', ''-f'', Dockerfile build] @ m1
        @ [''-t'', Name build, Context build]"
    unfolding commandBuild_def using commandBuildFrom_ends by blast
  obtain m2 where m2: "commandBuild_v up env now build =
      buildahExe # [''bud'', ''--format'', ''docker'', ''-f'', Dockerfile build] @ m2
        @ [''-t'', Name build, Context build]"
    unfolding commandBuild_v_def using commandBuildFrom_ends by blast
  show "commandBuild up env now build ! 3 = ''bud''" "commandBuild_v up env now build ! Suc 0 = ''bud''"
    by (simp_all add: m1 m2 numeral_3_eq_3)
qed



section \<open>Facts about the batch loop and Exec\<close>


lemma runBatch_ok:
  "RunCmd sys cmd (trace cmd s) = (None, s') \<Longrightarrow> runBatch sys (cmd # cmds) s = runBatch sys cmds s'"
  by simp

lemma runBatch_v_ok:
  "RunCmd sys cmd (trace cmd s) = (None, s') \<Longrightarrow> runBatch_v sys (cmd # cmds) s = runBatch_v sys cmds s'"
  by simp








lemma Exec_runs_batch:
  "ExecPrepare sys p s = (None, s1) \<Longrightarrow>
   (if Password (Login p) \<noteq> [] then RunCmd sys (commandLogin (Login p)) s1 = (None, s2)
    else s2 = s1) \<Longrightarrow>
   Exec up sys now p s =
     runBatch sys (ExecCmds up (environ s2) now (p\<lparr>Build := addProxyBuildArgs up (environ s2) (Build p)\<rparr>)) s2"
  by (cases "Password (Login p) = []") (simp_all add: Exec_def dockerLogin_def)

lemma Exec_v_runs_batch:
  "ExecPrepare_v sys p s = (None, s1) \<Longrightarrow>
   (if Password (Login p) \<noteq> [] then RunCmd sys (commandLogin_v (Login p)) s1 = (None, s2)
    else s2 = s1) \<Longrightarrow>
   Exec_v up sys now p s =
     runBatch_v sys (ExecCmds_v up (environ s2) now (p\<lparr>Build := addProxyBuildArgs up (environ s2) (Build p)\<rparr>))
       (Print (if Password (Login p) \<noteq> [] then ''Detected registry credentials\<newline>''
               else if Config (Login p) \<noteq> [] then ''Detected registry credentials file\<newline>''
               else ''Registry credentials or Docker config not provided. Guest mode enabled.\<newline>'') s2)"
  by (cases "Password (Login p) = []") (simp_all add: Exec_v_def Print_def)

lemma RunCmd_sampleSys:
  "RunCmd (sampleSys fails) cmd st =
     ((if fails cmd then Some ''exit status 125'' else None), st\<lparr>world := world st @ [cmd]\<rparr>)"
  by (simp add: RunCmd_def sampleSys_def)

lemma ExecPrepare_sampleSys:
  "Config (Login p) = [] \<Longrightarrow>
   ExecPrepare (sampleSys fails) p st =
     (None, OsSetenv ''CONTAINERS_STORAGE_CONF'' ''/tmp/buildah-plugin/storage.conf''
              (OsSetenv ''STORAGE_DRIVER'' ''vfs'' st))"
  by (simp add: ExecPrepare_def sampleSys_def OsSetenv_def Let_def)

lemma ExecPrepare_v_sampleSys:
  "Config (Login p) = [] \<Longrightarrow>
   ExecPrepare_v (sampleSys fails) p st =
     (None, OsSetenv ''CONTAINERS_STORAGE_CONF'' ''/home/build/.config/containers/storage.conf''
              (OsSetenv ''BUILDAH_ISOLATION'' ''rootless'' (OsSetenv ''STORAGE_DRIVER'' ''vfs'' st)))"
  by (simp add: ExecPrepare_v_def sampleSys_def OsSetenv_def Let_def)

lemma runBatch_sampleSys_ok:
  "\<forall>c\<in>set cmds. \<not> fails c \<Longrightarrow>
   runBatch (sampleSys fails) cmds s =
     (None, s\<lparr>stdout := stdout s @ map (\<lambda>c. ''+ '' @ Join c '' '' @ ''\<newline>'') cmds,
               world := world s @ cmds\<rparr>)"
  by (induction cmds arbitrary: s) (simp_all add: RunCmd_sampleSys trace_def Print_def)

lemma runBatch_v_sampleSys_ok:
  "\<forall>c\<in>set cmds. \<not> fails c \<Longrightarrow>
   runBatch_v (sampleSys fails) cmds s =
     (None, s\<lparr>stdout := stdout s @ map (\<lambda>c. ''+ '' @ Join c '' '' @ ''\<newline>'') cmds,
               world := world s @ cmds\<rparr>)"
  by (induction cmds arbitrary: s) (simp_all add: RunCmd_sampleSys trace_def Print_def)









section \<open>The claims about the command list and its execution\<close>

subsection \<open>Claim C3\<close>

text \<open>
  C3. The command list that Exec builds, from the plugin whose build has received the proxy
  arguments, is: version, info, one pull per \<^verbatim>\<open>CacheFrom\<close> entry in list order, the build,
  then for each tag in \<^verbatim>\<open>Tags\<close> in order a tag command followed, unless \<^verbatim>\<open>Dryrun\<close>
  (\<^verbatim>\<open>SkipPush\<close> in the second file) is set, by the push of the same tag, and last a
  remove-image command when \<^verbatim>\<open>Cleanup\<close> is set. Both files build the list this way, each
  with its own command constructors. Once the preparation has succeeded and the login,
  when there is one, has succeeded, what Exec does is to run its batch loop on exactly
  this list, from the state reached then.
\<close>

theorem Exec_command_order:
  "ExecCmds up env now (p\<lparr>Build := addProxyBuildArgs up env (Build p)\<rparr>) =
     [commandVersion, commandInfo] @ map commandPull (CacheFrom (Build p))
     @ [commandBuild up env now (addProxyBuildArgs up env (Build p))]
     @ concat (map (\<lambda>tag. commandTag (Build p) tag #
                          (if Dryrun p then [] else [commandPush (Build p) tag])) (Tags (Build p)))
     @ (if Cleanup p then [commandRmi (Name (Build p))] else [])
   \<and> ExecCmds_v up env now (p\<lparr>Build := addProxyBuildArgs up env (Build p)\<rparr>) =
     [commandVersion_v, commandInfo_v] @ map commandPull_v (CacheFrom (Build p))
     @ [commandBuild_v up env now (addProxyBuildArgs up env (Build p))]
     @ concat (map (\<lambda>tag. commandTag_v (Build p) tag #
                          (if Dryrun p then [] else [commandPush_v (Build p) tag])) (Tags (Build p)))
     @ (if Cleanup p then [commandRmi_v (Name (Build p))] else [])
   \<and> (ExecPrepare sys p s = (None, s1) \<longrightarrow>
      (if Password (Login p) \<noteq> [] then RunCmd sys (commandLogin (Login p)) s1 = (None, s2)
       else s2 = s1) \<longrightarrow>
      Exec up sys now p s =
        runBatch sys
          ([commandVersion, commandInfo] @ map commandPull (CacheFrom (Build p))
           @ [commandBuild up (environ s2) now (addProxyBuildArgs up (environ s2) (Build p))]
           @ concat (map (\<lambda>tag. commandTag (Build p) tag #
                          (if Dryrun p then [] else [commandPush (Build p) tag])) (Tags (Build p)))
           @ (if Cleanup p then [commandRmi (Name (Build p))] else []))
          s2)
   \<and> (ExecPrepare_v sys p s = (None, s1) \<longrightarrow>
      (if Password (Login p) \<noteq> [] then RunCmd sys (commandLogin_v (Login p)) s1 = (None, s2)
       else s2 = s1) \<longrightarrow>
      Exec_v up sys now p s =
        runBatch_v sys
          ([commandVersion_v, commandInfo_v] @ map commandPull_v (CacheFrom (Build p))
           @ [commandBuild_v up (environ s2) now (addProxyBuildArgs up (environ s2) (Build p))]
           @ concat (map (\<lambda>tag. commandTag_v (Build p) tag #
                          (if Dryrun p then [] else [commandPush_v (Build p) tag])) (Tags (Build p)))
           @ (if Cleanup p then [commandRmi_v (Name (Build p))] else []))
          (Print (if Password (Login p) \<noteq> [] then ''Detected registry credentials\<newline>''
                  else if Config (Login p) \<noteq> [] then ''Detected registry credentials file\<newline>''
                  else ''Registry credentials or Docker config not provided. Guest mode enabled.\<newline>'')
             s2))"
proof -
  have t: "\<And>env tag. commandTag (addProxyBuildArgs up env (Build p)) tag = commandTag (Build p) tag"
    "\<And>env tag. commandPush (addProxyBuildArgs up env (Build p)) tag = commandPush (Build p) tag"
    "\<And>env tag. commandTag_v (addProxyBuildArgs up env (Build p)) tag = commandTag_v (Build p) tag"
    "\<And>env tag. commandPush_v (addProxyBuildArgs up env (Build p)) tag = commandPush_v (Build p) tag"
    by (simp_all add: addProxyBuildArgs_fields commandTag_def commandPush_def commandTag_v_def
        commandPush_v_def)
  have l: "ExecCmds up env now (p\<lparr>Build := addProxyBuildArgs up env (Build p)\<rparr>) =
     [commandVersion, commandInfo] @ map commandPull (CacheFrom (Build p))
     @ [commandBuild up env now (addProxyBuildArgs up env (Build p))]
     @ concat (map (\<lambda>tag. commandTag (Build p) tag #
                          (if Dryrun p then [] else [commandPush (Build p) tag])) (Tags (Build p)))
     @ (if Cleanup p then [commandRmi (Name (Build p))] else [])" for env
    by (simp add: ExecCmds_eq t addProxyBuildArgs_fields cong: if_cong)
  have lv: "ExecCmds_v up env now (p\<lparr>Build := addProxyBuildArgs up env (Build p)\<rparr>) =
     [commandVersion_v, commandInfo_v] @ map commandPull_v (CacheFrom (Build p))
     @ [commandBuild_v up env now (addProxyBuildArgs up env (Build p))]
     @ concat (map (\<lambda>tag. commandTag_v (Build p) tag #
                          (if Dryrun p then [] else [commandPush_v (Build p) tag])) (Tags (Build p)))
     @ (if Cleanup p then [commandRmi_v (Name (Build p))] else [])" for env
    by (simp add: ExecCmds_v_eq t addProxyBuildArgs_fields cong: if_cong)
  show ?thesis
  proof (intro conjI impI)
    show "ExecCmds up env now (p\<lparr>Build := addProxyBuildArgs up env (Build p)\<rparr>) =
     [commandVersion, commandInfo] @ map commandPull (CacheFrom (Build p))
     @ [commandBuild up env now (addProxyBuildArgs up env (Build p))]
     @ concat (map (\<lambda>tag. commandTag (Build p) tag #
                          (if Dryrun p then [] else [commandPush (Build p) tag])) (Tags (Build p)))
     @ (if Cleanup p then [commandRmi (Name (Build p))] else [])"
      by (rule l)
  next
    show "ExecCmds_v up env now (p\<lparr>Build := addProxyBuildArgs up env (Build p)\<rparr>) =
     [commandVersion_v, commandInfo_v] @ map commandPull_v (CacheFrom (Build p))
     @ [commandBuild_v up env now (addProxyBuildArgs up env (Build p))]
     @ concat (map (\<lambda>tag. commandTag_v (Build p) tag #
                          (if Dryrun p then [] else [commandPush_v (Build p) tag])) (Tags (Build p)))
     @ (if Cleanup p then [commandRmi_v (Name (Build p))] else [])"
      by (rule lv)
  next
    assume "ExecPrepare sys p s = (None, s1)"
      and "if Password (Login p) \<noteq> [] then RunCmd sys (commandLogin (Login p)) s1 = (None, s2)
           else s2 = s1"
    then have "Exec up sys now p s =
       runBatch sys (ExecCmds up (environ s2) now
         (p\<lparr>Build := addProxyBuildArgs up (environ s2) (Build p)\<rparr>)) s2"
      by (rule Exec_runs_batch)
    then show "Exec up sys now p s =
        runBatch sys
          ([commandVersion, commandInfo] @ map commandPull (CacheFrom (Build p))
           @ [commandBuild up (environ s2) now (addProxyBuildArgs up (environ s2) (Build p))]
           @ concat (map (\<lambda>tag. commandTag (Build p) tag #
                          (if Dryrun p then [] else [commandPush (Build p) tag])) (Tags (Build p)))
           @ (if Cleanup p then [commandRmi (Name (Build p))] else []))
          s2"
      by (simp only: l)
  next
    assume "ExecPrepare_v sys p s = (None, s1)"
      and "if Password (Login p) \<noteq> [] then RunCmd sys (commandLogin_v (Login p)) s1 = (None, s2)
           else s2 = s1"
    then have "Exec_v up sys now p s =
       runBatch_v sys (ExecCmds_v up (environ s2) now
         (p\<lparr>Build := addProxyBuildArgs up (environ s2) (Build p)\<rparr>))
       (Print (if Password (Login p) \<noteq> [] then ''Detected registry credentials\<newline>''
               else if Config (Login p) \<noteq> [] then ''Detected registry credentials file\<newline>''
               else ''Registry credentials or Docker config not provided. Guest mode enabled.\<newline>'') s2)"
      by (rule Exec_v_runs_batch)
    then show "Exec_v up sys now p s =
        runBatch_v sys
          ([commandVersion_v, commandInfo_v] @ map commandPull_v (CacheFrom (Build p))
           @ [commandBuild_v up (environ s2) now (addProxyBuildArgs up (environ s2) (Build p))]
           @ concat (map (\<lambda>tag. commandTag_v (Build p) tag #
                          (if Dryrun p then [] else [commandPush_v (Build p) tag])) (Tags (Build p)))
           @ (if Cleanup p then [commandRmi_v (Name (Build p))] else []))
          (Print (if Password (Login p) \<noteq> [] then ''Detected registry credentials\<newline>''
                  else if Config (Login p) \<noteq> [] then ''Detected registry credentials file\<newline>''
                  else ''Registry credentials or Docker config not provided. Guest mode enabled.\<newline>'')
             s2)"
      by (simp only: lv)
  qed
qed

theorem Exec_command_order_witness:
  "world (snd (Exec sampleUpper (sampleSys (failsAt 0 [])) ''T'' samplePlugin sampleProc)) =
     [ [''buildah'', ''--storage-driver'', ''vfs'', ''version''],
      [''buildah'', ''--storage-driver'', ''vfs'', ''info''],
      [''buildah'', ''--storage-driver'', ''vfs'', ''pull'', ''a''],
      [''buildah'', ''--storage-driver'', ''vfs'', ''pull'', ''b''],
      commandBuild sampleUpper (environ samplePrepared) ''T''
        (addProxyBuildArgs sampleUpper (environ samplePrepared) sampleBuild),
      [''buildah'', ''--storage-driver'', ''vfs'', ''tag'', ''abc123'', ''org/img:v1''],
      [''buildah'', ''--storage-driver'', ''vfs'', ''push'', ''org/img:v1''],
      [''buildah'', ''--storage-driver'', ''vfs'', ''tag'', ''abc123'', ''org/img:v2''],
      [''buildah'', ''--storage-driver'', ''vfs'', ''push'', ''org/img:v2''],
      [''buildah'', ''--storage-driver'', ''vfs'', ''rmi'', ''abc123''] ]
   \<and> world (snd (Exec_v sampleUpper (sampleSys (failsAt 0 [])) ''T'' samplePlugin sampleProc)) =
     [ [''buildah'', ''version''], [''buildah'', ''info''],
      [''buildah'', ''pull'', ''--storage-driver'', ''vfs'', ''a''],
      [''buildah'', ''pull'', ''--storage-driver'', ''vfs'', ''b''],
      commandBuild_v sampleUpper (environ samplePrepared_v) ''T''
        (addProxyBuildArgs sampleUpper (environ samplePrepared_v) sampleBuild),
      [''buildah'', ''tag'', ''abc123'', ''org/img:v1''], [''buildah'', ''push'', ''org/img:v1''],
      [''buildah'', ''tag'', ''abc123'', ''org/img:v2''], [''buildah'', ''push'', ''org/img:v2''],
      [''buildah'', ''rmi'', ''abc123''] ]"
proof -
  let ?sys = "sampleSys (failsAt 0 [])"
  have f: "Build samplePlugin = sampleBuild" "Dryrun samplePlugin = False" "Cleanup samplePlugin = True"
    "CacheFrom sampleBuild = [''a'', ''b'']" "Tags sampleBuild = [''v1'', ''v2'']"
    "Name sampleBuild = ''abc123''" "Repo sampleBuild = ''org/img''"
    by (simp_all add: samplePlugin_def sampleBuild_def)
  have lg: "Config (Login samplePlugin) = []" "Password (Login samplePlugin) = []"
    by (simp_all add: samplePlugin_def sampleLogin_def)
  have w: "world samplePrepared = []" "world samplePrepared_v = []"
    by (simp_all add: samplePrepared_def samplePrepared_v_def OsSetenv_def sampleProc_def)
  have prep: "ExecPrepare ?sys samplePlugin sampleProc = (None, samplePrepared)"
    unfolding samplePrepared_def using lg(1) by (rule ExecPrepare_sampleSys)
  have prep_v: "ExecPrepare_v ?sys samplePlugin sampleProc = (None, samplePrepared_v)"
    unfolding samplePrepared_v_def using lg(1) by (rule ExecPrepare_v_sampleSys)
  have login: "if Password (Login samplePlugin) \<noteq> []
      then RunCmd ?sys (commandLogin (Login samplePlugin)) samplePrepared = (None, samplePrepared)
      else samplePrepared = samplePrepared"
    by (simp add: lg)
  have login_v: "if Password (Login samplePlugin) \<noteq> []
      then RunCmd ?sys (commandLogin_v (Login samplePlugin)) samplePrepared_v = (None, samplePrepared_v)
      else samplePrepared_v = samplePrepared_v"
    by (simp add: lg)
  note T = Exec_command_order [where sys = ?sys and p = samplePlugin and s = sampleProc
      and up = sampleUpper and now = "''T''"]
  note d = T [THEN conjunct2, THEN conjunct2, THEN conjunct1, rule_format, OF prep login]
  note v = T [THEN conjunct2, THEN conjunct2, THEN conjunct2, rule_format, OF prep_v login_v]
  have nf: "\<And>cmds. \<forall>c\<in>set cmds. \<not> failsAt 0 [] c"
    by (simp add: failsAt_def)
  have "world (snd (Exec sampleUpper ?sys ''T'' samplePlugin sampleProc)) =
     [commandVersion, commandInfo] @ map commandPull (CacheFrom (Build samplePlugin))
     @ [commandBuild sampleUpper (environ samplePrepared) ''T''
          (addProxyBuildArgs sampleUpper (environ samplePrepared) (Build samplePlugin))]
     @ concat (map (\<lambda>tag. commandTag (Build samplePlugin) tag #
            (if Dryrun samplePlugin then [] else [commandPush (Build samplePlugin) tag]))
          (Tags (Build samplePlugin)))
     @ (if Cleanup samplePlugin then [commandRmi (Name (Build samplePlugin))] else [])"
    unfolding d by (simp only: runBatch_sampleSys_ok [OF nf]) (simp add: w)
  then have r1: "world (snd (Exec sampleUpper ?sys ''T'' samplePlugin sampleProc)) =
     [ [''buildah'', ''--storage-driver'', ''vfs'', ''version''],
      [''buildah'', ''--storage-driver'', ''vfs'', ''info''],
      [''buildah'', ''--storage-driver'', ''vfs'', ''pull'', ''a''],
      [''buildah'', ''--storage-driver'', ''vfs'', ''pull'', ''b''],
      commandBuild sampleUpper (environ samplePrepared) ''T''
        (addProxyBuildArgs sampleUpper (environ samplePrepared) sampleBuild),
      [''buildah'', ''--storage-driver'', ''vfs'', ''tag'', ''abc123'', ''org/img:v1''],
      [''buildah'', ''--storage-driver'', ''vfs'', ''push'', ''org/img:v1''],
      [''buildah'', ''--storage-driver'', ''vfs'', ''tag'', ''abc123'', ''org/img:v2''],
      [''buildah'', ''--storage-driver'', ''vfs'', ''push'', ''org/img:v2''],
      [''buildah'', ''--storage-driver'', ''vfs'', ''rmi'', ''abc123''] ]"
    by (simp add: f commandVersion_def commandInfo_def commandPull_def commandTag_def
        commandPush_def commandRmi_def buildahExe_def)
  have "world (snd (Exec_v sampleUpper ?sys ''T'' samplePlugin sampleProc)) =
     [commandVersion_v, commandInfo_v] @ map commandPull_v (CacheFrom (Build samplePlugin))
     @ [commandBuild_v sampleUpper (environ samplePrepared_v) ''T''
          (addProxyBuildArgs sampleUpper (environ samplePrepared_v) (Build samplePlugin))]
     @ concat (map (\<lambda>tag. commandTag_v (Build samplePlugin) tag #
            (if Dryrun samplePlugin then [] else [commandPush_v (Build samplePlugin) tag]))
          (Tags (Build samplePlugin)))
     @ (if Cleanup samplePlugin then [commandRmi_v (Name (Build samplePlugin))] else [])"
    unfolding v by (simp only: runBatch_v_sampleSys_ok [OF nf]) (simp add: w Print_def)
  then have r2: "world (snd (Exec_v sampleUpper ?sys ''T'' samplePlugin sampleProc)) =
     [ [''buildah'', ''version''], [''buildah'', ''info''],
      [''buildah'', ''pull'', ''--storage-driver'', ''vfs'', ''a''],
      [''buildah'', ''pull'', ''--storage-driver'', ''vfs'', ''b''],
      commandBuild_v sampleUpper (environ samplePrepared_v) ''T''
        (addProxyBuildArgs sampleUpper (environ samplePrepared_v) sampleBuild),
      [''buildah'', ''tag'', ''abc123'', ''org/img:v1''], [''buildah'', ''push'', ''org/img:v1''],
      [''buildah'', ''tag'', ''abc123'', ''org/img:v2''], [''buildah'', ''push'', ''org/img:v2''],
      [''buildah'', ''rmi'', ''abc123''] ]"
    by (simp add: f commandVersion_v_def commandInfo_v_def commandPull_v_def commandTag_v_def
        commandPush_v_def commandRmi_v_def buildahExe_def)
  show ?thesis using r1 r2 by (rule conjI)
qed

subsection \<open>Claim C10\<close>

text \<open>
  C10. In the command list of Exec every push command (in docker.go the commands whose
  token at index 3 is \<^verbatim>\<open>push\<close>, in the second file those whose token at index 1 is
  \<^verbatim>\<open>push\<close>) is not the first command, its target is the \<^verbatim>\<open>Repo\<close> field, a colon and a
  tag of \<^verbatim>\<open>Tags\<close>, and the command just before it is the tag command with the build
  \<^verbatim>\<open>Name\<close> as source and the same target.
\<close>

theorem push_follows_its_tag:
  "(\<forall>i<length (ExecCmds up env now p). ExecCmds up env now p ! i ! 3 = ''push'' \<longrightarrow>
      0 < i \<and> (\<exists>tag\<in>set (Tags (Build p)).
         ExecCmds up env now p ! i =
           [buildahExe, ''--storage-driver'', ''vfs'', ''push'', Repo (Build p) @ '':'' @ tag]
         \<and> ExecCmds up env now p ! (i - 1) =
           [buildahExe, ''--storage-driver'', ''vfs'', ''tag'', Name (Build p),
            Repo (Build p) @ '':'' @ tag]))
   \<and> (\<forall>i<length (ExecCmds_v up env now p). ExecCmds_v up env now p ! i ! 1 = ''push'' \<longrightarrow>
      0 < i \<and> (\<exists>tag\<in>set (Tags (Build p)).
         ExecCmds_v up env now p ! i = [buildahExe, ''push'', Repo (Build p) @ '':'' @ tag]
         \<and> ExecCmds_v up env now p ! (i - 1) =
           [buildahExe, ''tag'', Name (Build p), Repo (Build p) @ '':'' @ tag]))"
proof -
  have a: "\<forall>i<length (ExecCmds up env now p). (\<lambda>c. c ! 3 = ''push'') (ExecCmds up env now p ! i) \<longrightarrow>
      0 < i \<and> (\<exists>tag\<in>set (Tags (Build p)).
         ExecCmds up env now p ! i = commandPush (Build p) tag
         \<and> ExecCmds up env now p ! (i - 1) = commandTag (Build p) tag)"
    by (rule push_after_tag_list [where v = commandVersion and n = commandInfo and f = commandPull
          and b = "commandBuild up env now (Build p)" and r = "commandRmi (Name (Build p))"
          and xs = "CacheFrom (Build p)" and d = "Dryrun p" and c = "Cleanup p"])
       (simp_all add: ExecCmds_eq commandVersion_def commandInfo_def commandPull_def
          commandTag_def commandRmi_def commandBuild_subcommand)
  have b: "\<forall>i<length (ExecCmds_v up env now p). (\<lambda>c. c ! 1 = ''push'') (ExecCmds_v up env now p ! i) \<longrightarrow>
      0 < i \<and> (\<exists>tag\<in>set (Tags (Build p)).
         ExecCmds_v up env now p ! i = commandPush_v (Build p) tag
         \<and> ExecCmds_v up env now p ! (i - 1) = commandTag_v (Build p) tag)"
    by (rule push_after_tag_list [where v = commandVersion_v and n = commandInfo_v and f = commandPull_v
          and b = "commandBuild_v up env now (Build p)" and r = "commandRmi_v (Name (Build p))"
          and xs = "CacheFrom (Build p)" and d = "Dryrun p" and c = "Cleanup p"])
       (simp_all add: ExecCmds_v_eq commandVersion_v_def commandInfo_v_def commandPull_v_def
          commandTag_v_def commandRmi_v_def commandBuild_subcommand)
  show ?thesis
    using a b by (simp add: commandPush_def commandTag_def commandPush_v_def commandTag_v_def)
qed

theorem push_follows_its_tag_witness:
  "0 < (6::nat) \<and> (\<exists>tag\<in>set (Tags (Build samplePlugin)).
      ExecCmds sampleUpper sampleEnv ''T'' samplePlugin ! 6 =
        [buildahExe, ''--storage-driver'', ''vfs'', ''push'', Repo (Build samplePlugin) @ '':'' @ tag]
      \<and> ExecCmds sampleUpper sampleEnv ''T'' samplePlugin ! (6 - 1) =
        [buildahExe, ''--storage-driver'', ''vfs'', ''tag'', Name (Build samplePlugin),
         Repo (Build samplePlugin) @ '':'' @ tag])"
proof -
  have f: "Build samplePlugin = sampleBuild" "Dryrun samplePlugin = False" "Cleanup samplePlugin = True"
    "CacheFrom sampleBuild = [''a'', ''b'']" "Tags sampleBuild = [''v1'', ''v2'']"
    by (simp_all add: samplePlugin_def sampleBuild_def)
  have len: "6 < length (ExecCmds sampleUpper sampleEnv ''T'' samplePlugin)"
    by (simp add: ExecCmds_eq f)
  have push: "ExecCmds sampleUpper sampleEnv ''T'' samplePlugin ! 6 ! 3 = ''push''"
    by (simp add: ExecCmds_eq f commandPush_def)
  show ?thesis
    using push_follows_its_tag [of sampleUpper sampleEnv "''T''" samplePlugin, THEN conjunct1, rule_format, OF len push]
    .
qed

subsection \<open>Claim C1\<close>




end
